theory Spec2Isabelle
  imports Main "HOL-Library.AList"
begin

section \<open>Python values used by the orchestrator scripts\<close>

subsection \<open>List slicing\<close>

text \<open>
  Python's \<open>xs[a:b]\<close> on a list: a negative bound counts from the end, and both bounds
  are clamped to \<open>[0, len(xs)]\<close>; an inverted range is empty. Nothing is raised.
\<close>

definition slice_bound :: "int \<Rightarrow> int \<Rightarrow> int" where
  "slice_bound n i = (if i < 0 then max 0 (i + n) else min i n)"

definition py_slice :: "'a list \<Rightarrow> int \<Rightarrow> int \<Rightarrow> 'a list" where
  "py_slice xs a b =
     (let n = int (length xs); s = slice_bound n a; e = slice_bound n b
      in take (nat (e - s)) (drop (nat s) xs))"

subsection \<open>The index options shared by the three orchestrators\<close>

text \<open>
  \<open>--start-idx\<close>, \<open>--end-idx\<close>, \<open>--job-idx\<close> and \<open>--jobs-per-array\<close> are declared with
  \<open>type=int, default=None\<close> in all three scripts.
\<close>

record range_args =
  start_idx :: "int option"
  end_idx :: "int option"
  job_idx :: "int option"
  jobs_per_array :: "int option"

text \<open>
  The block ``Determine which micrographs to process'' of every \<open>main\<close>
  (\<open>process_all_micrographs.py\<close> lines 172--182, and the same lines in the refine and
  constrained-search scripts). The result is the list that replaces \<open>micrograph_files\<close>.
\<close>

definition select_micrographs :: "('r range_args_scheme) \<Rightarrow> 'a list \<Rightarrow> 'a list" where
  "select_micrographs args micrograph_files =
     (case (job_idx args, jobs_per_array args) of
        (Some j, Some k) \<Rightarrow>
          (let start = (j - 1) * k;
               end_i = min (start + k) (int (length micrograph_files))
           in py_slice micrograph_files start end_i)
      | _ \<Rightarrow>
          (if start_idx args \<noteq> None \<or> end_idx args \<noteq> None then
             (let start = (case start_idx args of Some s \<Rightarrow> s | None \<Rightarrow> 0);
                  end_i = (case end_idx args of Some e \<Rightarrow> e
                           | None \<Rightarrow> int (length micrograph_files))
              in py_slice micrograph_files start end_i)
           else micrograph_files))"

subsection \<open>Exceptions\<close>

text \<open>
  An exception is its class (as far as the \<open>except\<close> clauses of the scripts tell classes
  apart; \<open>OtherError\<close> carries the name of any other class) and its message \<open>str(e)\<close>. \<open>KeyboardInterrupt\<close> derives from \<open>BaseException\<close>, not
  from \<open>Exception\<close>: an \<open>except Exception\<close> clause does not catch it.
\<close>

datatype exc_kind =
  KeyError | TypeError | IndexError | ValueError | FileNotFoundError | PermissionError
  | ImportError | AttributeError | UnboundLocalError | OtherError string

datatype exn = KeyboardInterrupt | Exc exc_kind string

fun is_Exception :: "exn \<Rightarrow> bool" where
  "is_Exception KeyboardInterrupt = False"
| "is_Exception (Exc k m) = True"

fun str_exn :: "exn \<Rightarrow> string" where
  "str_exn KeyboardInterrupt = []"
| "str_exn (Exc k m) = m"

fun kind_name :: "exc_kind \<Rightarrow> string" where
  "kind_name KeyError = ''KeyError''"
| "kind_name TypeError = ''TypeError''"
| "kind_name IndexError = ''IndexError''"
| "kind_name ValueError = ''ValueError''"
| "kind_name FileNotFoundError = ''FileNotFoundError''"
| "kind_name PermissionError = ''PermissionError''"
| "kind_name ImportError = ''ImportError''"
| "kind_name AttributeError = ''AttributeError''"
| "kind_name UnboundLocalError = ''UnboundLocalError''"
| "kind_name (OtherError name) = name"

definition bind_exn :: "exn + 'a \<Rightarrow> ('a \<Rightarrow> exn + 'b) \<Rightarrow> exn + 'b" where
  "bind_exn m f = (case m of Inl e \<Rightarrow> Inl e | Inr x \<Rightarrow> f x)"

subsection \<open>Strings and \<open>os.path\<close> (posixpath)\<close>

text \<open>\<open>str(n)\<close> for an integer, in decimal.\<close>

definition digit_char :: "nat \<Rightarrow> char" where
  "digit_char d = ''0123456789'' ! d"

fun str_nat :: "nat \<Rightarrow> string" where
  "str_nat n = (if n < 10 then [digit_char n] else str_nat (n div 10) @ [digit_char (n mod 10)])"

declare str_nat.simps [simp del]

definition str_int :: "int \<Rightarrow> string" where
  "str_int i = (if i < 0 then CHR ''-'' # str_nat (nat (- i)) else str_nat (nat i))"

text \<open>\<open>repr\<close> of a list of integers, as an f-string prints \<open>gpu_ids\<close>: \<open>[0, 1]\<close>.\<close>

fun join_comma :: "string list \<Rightarrow> string" where
  "join_comma [] = []"
| "join_comma [x] = x"
| "join_comma (x # y # ys) = x @ '', '' @ join_comma (y # ys)"

definition repr_int_list :: "int list \<Rightarrow> string" where
  "repr_int_list xs = ''['' @ join_comma (map str_int xs) @ '']''"

text \<open>\<open>repr\<close> of a string without quotes or backslashes in it: the string in single quotes.\<close>

definition quoted :: "string \<Rightarrow> string" where
  "quoted s = [CHR 0x27] @ s @ [CHR 0x27]"

text \<open>
  \<open>os.path.basename(p)\<close> is \<open>p[p.rfind('/') + 1:]\<close>: what follows the last slash.
\<close>

definition basename :: "string \<Rightarrow> string" where
  "basename p = rev (takeWhile (\<lambda>c. c \<noteq> CHR ''/'') (rev p))"

text \<open>
  \<open>os.path.dirname(p)\<close> is \<open>head = p[:p.rfind('/') + 1]\<close>, with its trailing slashes
  stripped unless \<open>head\<close> is empty or made of slashes only.
\<close>

definition dirname :: "string \<Rightarrow> string" where
  "dirname p =
     (let head = rev (dropWhile (\<lambda>c. c \<noteq> CHR ''/'') (rev p))
      in if head \<noteq> [] \<and> (\<exists>c \<in> set head. c \<noteq> CHR ''/'')
         then rev (dropWhile (\<lambda>c. c = CHR ''/'') (rev head)) else head)"

text \<open>\<open>os.path.join(a, b)\<close> with two arguments.\<close>

definition path_join :: "string \<Rightarrow> string \<Rightarrow> string" where
  "path_join a b =
     (if b \<noteq> [] \<and> hd b = CHR ''/'' then b
      else if a = [] \<or> last a = CHR ''/'' then a @ b
      else a @ ''/'' @ b)"

text \<open>
  \<open>os.path.splitext(p)[0]\<close>: the path without the extension of its last component. The
  extension starts at the last dot of the last component, provided a character other than
  a dot precedes it in that component; otherwise there is no extension.
\<close>

definition splitext_root :: "string \<Rightarrow> string" where
  "splitext_root p =
     (let b = basename p in
      if CHR ''.'' \<in> set b then
        (let ext_len = Suc (length (takeWhile (\<lambda>c. c \<noteq> CHR ''.'') (rev b)));
             stem = take (length b - ext_len) b
         in if \<exists>c \<in> set stem. c \<noteq> CHR ''.'' then take (length p - ext_len) p else p)
      else p)"

text \<open>\<open>s.split('.')[0]\<close>: what precedes the first dot (all of \<open>s\<close> when it has none).\<close>

definition before_first_dot :: "string \<Rightarrow> string" where
  "before_first_dot s = takeWhile (\<lambda>c. c \<noteq> CHR ''.'') s"

section \<open>Configuration documents\<close>

text \<open>
  What \<open>yaml.safe_load\<close> returns: a tree of scalars, lists and mappings. The type \<open>'f\<close>
  stands for Python's \<open>float\<close>; the scripts store floats and never compute with them.
  A mapping is a \<open>dict\<close>: an association list in insertion order whose keys are strings.
  The document is a tree: no node is shared between two places of it.
\<close>

datatype 'f yaml =
  YNull | YBool bool | YInt int | YFloat 'f | YStr string
  | YList "'f yaml list" | YMap "(string \<times> 'f yaml) list"

text \<open>The name of a value's Python type, as exception messages print it.\<close>

fun type_name :: "'f yaml \<Rightarrow> string" where
  "type_name YNull = ''NoneType''"
| "type_name (YBool b) = ''bool''"
| "type_name (YInt i) = ''int''"
| "type_name (YFloat x) = ''float''"
| "type_name (YStr s) = ''str''"
| "type_name (YList xs) = ''list''"
| "type_name (YMap d) = ''dict''"

text \<open>
  \<open>obj[key]\<close> with a string key: a \<open>dict\<close> looks the key up and raises \<open>KeyError\<close> when it
  is missing; every other value raises \<open>TypeError\<close>.
\<close>

fun get_item :: "'f yaml \<Rightarrow> string \<Rightarrow> exn + 'f yaml" where
  "get_item (YMap d) k =
     (case map_of d k of None \<Rightarrow> Inl (Exc KeyError (quoted k)) | Some v \<Rightarrow> Inr v)"
| "get_item (YList xs) k =
     Inl (Exc TypeError ''list indices must be integers or slices, not str'')"
| "get_item (YStr s) k =
     Inl (Exc TypeError (''string indices must be integers, not '' @ quoted ''str''))"
| "get_item v k =
     Inl (Exc TypeError (quoted (type_name v) @ '' object is not subscriptable''))"

text \<open>
  \<open>obj[key] = value\<close> with a string key: a \<open>dict\<close> replaces the value of a key it has,
  in place, and appends a new key at the end; every other value raises \<open>TypeError\<close>.
\<close>

fun set_item :: "'f yaml \<Rightarrow> string \<Rightarrow> 'f yaml \<Rightarrow> exn + 'f yaml" where
  "set_item (YMap d) k v = Inr (YMap (AList.update k v d))"
| "set_item (YList xs) k v =
     Inl (Exc TypeError ''list indices must be integers or slices, not str'')"
| "set_item obj k v =
     Inl (Exc TypeError (quoted (type_name obj) @ '' object does not support item assignment''))"

text \<open>
  \<open>config[g][k] = value\<close>: the group is read from \<open>config\<close> and updated in place, so that
  \<open>config\<close> holds the updated group at the same key.
\<close>

definition set_nested :: "'f yaml \<Rightarrow> string \<Rightarrow> string \<Rightarrow> 'f yaml \<Rightarrow> exn + 'f yaml" where
  "set_nested config g k v =
     bind_exn (get_item config g) (\<lambda>grp.
     bind_exn (set_item grp k v) (\<lambda>grp'.
     set_item config g grp'))"

section \<open>The world the scripts run in\<close>

text \<open>
  The file system is a map from paths to the text of regular files, and the console is the
  list of lines printed so far. \<open>error_log_file\<close> is the global of that name of the
  constrained-search script: \<open>None\<close>, or the path the handle was opened on and whether
  the handle is closed; the other two scripts never touch it. What the scripts call from outside the repository is a
  parameter of the model, collected in \<open>env\<close>: the YAML library, Python's \<open>float\<close>, whether
  a path can be opened for writing, \<open>pandas.read_csv\<close>, \<open>sorted(glob.glob(...))\<close> and the
  compute engine of each stage.

  \<^item> \<open>py_float s\<close> is \<open>float(s)\<close>, \<open>None\<close> when it raises \<open>ValueError\<close>.
  \<^item> \<open>open_w_error p\<close> is the exception \<open>open(p, 'w')\<close> raises, if it raises.
  \<^item> \<open>match_engine w yaml batch csv\<close> is the body of the \<open>try\<close> of \<open>process_micrograph\<close>
    after its first \<open>print\<close>: \<open>MatchTemplateManager.from_yaml\<close>, \<open>run_match_template\<close>,
    \<open>results_to_dataframe\<close> and \<open>to_csv\<close>. It returns the world it leaves and the
    exception it raised, if any.
  \<^item> \<open>read_csv_len text\<close> is \<open>len(pd.read_csv(path))\<close> for a file with that text, or the
    exception \<open>read_csv\<close> raises.
  \<^item> \<open>refine_engine w yaml csv batch\<close> is \<open>RefineTemplateManager.from_yaml\<close> followed by
    \<open>run_refine_template\<close>; on success it returns the elapsed time as \<open>strftime\<close>
    prints it.
  \<^item> \<open>glob_sorted w pattern\<close> is \<open>sorted(glob.glob(pattern))\<close>.
\<close>

record world =
  files :: "string \<rightharpoonup> string"
  stdout :: "string list"
  error_log_file :: "(string \<times> bool) option"

definition print :: "string \<Rightarrow> world \<Rightarrow> world" where
  "print line w = w\<lparr>stdout := stdout w @ [line]\<rparr>"

definition path_exists :: "world \<Rightarrow> string \<Rightarrow> bool" where
  "path_exists w p = (files w p \<noteq> None)"

definition no_such_file :: "string \<Rightarrow> exn" where
  "no_such_file p = Exc FileNotFoundError (''[Errno 2] No such file or directory: '' @ quoted p)"

record 'f env =
  yaml_safe_load :: "string \<Rightarrow> exn + 'f yaml"
  yaml_dump :: "'f yaml \<Rightarrow> string"
  py_float :: "string \<Rightarrow> 'f option"
  open_w_error :: "string \<Rightarrow> exn option"
  match_engine :: "world \<Rightarrow> string \<Rightarrow> int \<Rightarrow> string \<Rightarrow> world \<times> exn option"
  read_csv_len :: "string \<Rightarrow> exn + nat"
  refine_engine :: "world \<Rightarrow> string \<Rightarrow> string \<Rightarrow> int \<Rightarrow> world \<times> (exn + string)"
  glob_sorted :: "world \<Rightarrow> string \<Rightarrow> string list"

section \<open>The match stage: \<open>process_all_micrographs.py\<close>\<close>

subsection \<open>\<open>create_yaml_for_micrograph\<close>\<close>

definition afo :: string where
  "afo = ''allow_file_overwrite''"

text \<open>
  \<open>os.path.basename(original_path)\<close> on a value of the document: only a string is a path.
\<close>

fun basename_of :: "'f yaml \<Rightarrow> exn + string" where
  "basename_of (YStr p) = Inr (basename p)"
| "basename_of v =
     Inl (Exc TypeError (''expected str, bytes or os.PathLike object, not '' @ type_name v))"

text \<open>
  Lines 52--55 for one key of a mapping: the new value is
  \<open>os.path.join(results_dir, f"{micrograph_basename}_{filename}")\<close>.
\<close>

definition new_path :: "string \<Rightarrow> string \<Rightarrow> string \<Rightarrow> string" where
  "new_path micrograph_basename results_dir filename =
     path_join results_dir (micrograph_basename @ ''_'' @ filename)"

text \<open>
  The loop of lines 50--55 over the keys of a mapping. The keys are those the mapping had
  when the loop started; the loop assigns to keys the mapping already has, so it neither
  adds nor reorders keys.
\<close>

fun rewrite_dict ::
  "string \<Rightarrow> string \<Rightarrow> string list \<Rightarrow> (string \<times> 'f yaml) list \<Rightarrow> exn + (string \<times> 'f yaml) list"
where
  "rewrite_dict mb rd [] d = Inr d"
| "rewrite_dict mb rd (key # keys) d =
     (if key \<noteq> afo then
        bind_exn (get_item (YMap d) key) (\<lambda>original_path.
        bind_exn (basename_of original_path) (\<lambda>filename.
        rewrite_dict mb rd keys (AList.update key (YStr (new_path mb rd filename)) d)))
      else rewrite_dict mb rd keys d)"

text \<open>
  The same loop when \<open>match_template_result\<close> is a list: the loop variable is an element of
  the list, used as an index into it. An integer or a boolean is an index (negative
  ones count from the end); anything else raises \<open>TypeError\<close>.
\<close>

fun list_index :: "'f yaml list \<Rightarrow> 'f yaml \<Rightarrow> exn + nat" where
  "list_index xs key =
     (case (case key of YInt i \<Rightarrow> Some i | YBool b \<Rightarrow> Some (if b then 1 else 0) | _ \<Rightarrow> None) of
        None \<Rightarrow> Inl (Exc TypeError
                 (''list indices must be integers or slices, not '' @ type_name key))
      | Some i \<Rightarrow>
          (let n = int (length xs); j = (if i < 0 then i + n else i)
           in if 0 \<le> j \<and> j < n then Inr (nat j)
              else Inl (Exc IndexError ''list index out of range'')))"

primrec rewrite_list ::
  "string \<Rightarrow> string \<Rightarrow> nat \<Rightarrow> 'f yaml list \<Rightarrow> exn + 'f yaml list"
where
  "rewrite_list mb rd 0 xs = Inr xs"
| "rewrite_list mb rd (Suc remaining) xs =
     (let key = xs ! (length xs - Suc remaining) in
      if key \<noteq> YStr afo then
        bind_exn (list_index xs key) (\<lambda>j.
        bind_exn (basename_of (xs ! j)) (\<lambda>filename.
        rewrite_list mb rd remaining (xs[j := YStr (new_path mb rd filename)])))
      else rewrite_list mb rd remaining xs)"

text \<open>
  Lines 50--55 on the value of \<open>config['match_template_result']\<close>, whatever it is. Iterating
  a non-empty string yields one-character keys, and indexing the string with the first of
  them raises; iterating the empty string does nothing; a scalar is not iterable.
\<close>

fun rewrite_result_group :: "string \<Rightarrow> string \<Rightarrow> 'f yaml \<Rightarrow> exn + 'f yaml" where
  "rewrite_result_group mb rd (YMap d) =
     bind_exn (rewrite_dict mb rd (map fst d) d) (\<lambda>d'. Inr (YMap d'))"
| "rewrite_result_group mb rd (YList xs) =
     bind_exn (rewrite_list mb rd (length xs) xs) (\<lambda>xs'. Inr (YList xs'))"
| "rewrite_result_group mb rd (YStr s) =
     (if s = [] then Inr (YStr s)
      else Inl (Exc TypeError (''string indices must be integers, not '' @ quoted ''str'')))"
| "rewrite_result_group mb rd v =
     Inl (Exc TypeError (quoted (type_name v) @ '' object is not iterable''))"

text \<open>
  Lines 38--55 of \<open>create_yaml_for_micrograph\<close>: what the function does to the loaded
  document before writing it. The statements run in the order of the source, and the
  first one that raises ends the function.
\<close>

definition overlay_match_config ::
  "'f yaml \<Rightarrow> string \<Rightarrow> 'f \<Rightarrow> 'f \<Rightarrow> 'f \<Rightarrow> string \<Rightarrow> int list \<Rightarrow> exn + 'f yaml"
where
  "overlay_match_config config micrograph_path defocus_1 defocus_2 astigmatism_angle
       output_path gpu_ids =
     bind_exn (set_item config ''micrograph_path'' (YStr micrograph_path)) (\<lambda>c1.
     bind_exn (set_nested c1 ''optics_group'' ''defocus_u'' (YFloat defocus_1)) (\<lambda>c2.
     bind_exn (set_nested c2 ''optics_group'' ''defocus_v'' (YFloat defocus_2)) (\<lambda>c3.
     bind_exn (set_nested c3 ''optics_group'' ''astigmatism_angle'' (YFloat astigmatism_angle))
       (\<lambda>c4.
     bind_exn (set_nested c4 ''computational_config'' ''gpu_ids'' (YList (map YInt gpu_ids)))
       (\<lambda>c5.
     let micrograph_basename = before_first_dot (basename micrograph_path);
         results_dir = dirname output_path
     in bind_exn (get_item c5 ''match_template_result'') (\<lambda>grp.
        bind_exn (rewrite_result_group micrograph_basename results_dir grp) (\<lambda>grp'.
        set_item c5 ''match_template_result'' grp')))))))"

text \<open>
  The whole function: it reads and parses the template, overlays the item's fields, and
  writes the dumped document to \<open>output_path\<close>. It returns the world after the call with
  either the exception raised or the returned \<open>config\<close>.
\<close>

definition create_yaml_for_micrograph ::
  "'f env \<Rightarrow> world \<Rightarrow> string \<Rightarrow> string \<Rightarrow> 'f \<Rightarrow> 'f \<Rightarrow> 'f \<Rightarrow> string \<Rightarrow> int list
     \<Rightarrow> world \<times> (exn + 'f yaml)"
where
  "create_yaml_for_micrograph env w template_yaml_path micrograph_path defocus_1 defocus_2
       astigmatism_angle output_path gpu_ids =
     (case files w template_yaml_path of
        None \<Rightarrow> (w, Inl (no_such_file template_yaml_path))
      | Some template_text \<Rightarrow>
         (case bind_exn (yaml_safe_load env template_text) (\<lambda>config.
                 overlay_match_config config micrograph_path defocus_1 defocus_2
                   astigmatism_angle output_path gpu_ids) of
            Inl e \<Rightarrow> (w, Inl e)
          | Inr config \<Rightarrow>
             (case open_w_error env output_path of
                Some e \<Rightarrow> (w, Inl e)
              | None \<Rightarrow>
                 (w\<lparr>files := (files w)(output_path \<mapsto> yaml_dump env config)\<rparr>, Inr config))))"

subsection \<open>Reading a document by a path of keys\<close>

text \<open>
  \<open>get_path [k1, k2, ...] v\<close> is the node \<open>v[k1][k2]...\<close> of a document, when every step
  is a key of a mapping; \<open>None\<close> otherwise. It is not a function of the scripts: the
  properties below use it to say what a derived document holds at a nested key.
\<close>

fun get_path :: "string list \<Rightarrow> 'f yaml \<Rightarrow> 'f yaml option" where
  "get_path [] v = Some v"
| "get_path (k # ks) (YMap d) = (case map_of d k of None \<Rightarrow> None | Some v \<Rightarrow> get_path ks v)"
| "get_path (k # ks) v = None"




text \<open>
  What a derivation left at a nested key of the derived document: \<open>None\<close> when the
  derivation raised or the document has no such node.
\<close>

definition derived_at :: "string list \<Rightarrow> exn + 'f yaml \<Rightarrow> 'f yaml option" where
  "derived_at p r = (case r of Inl e \<Rightarrow> None | Inr config \<Rightarrow> get_path p config)"

subsection \<open>A template document for the examples\<close>

text \<open>
  A match-stage template with the groups the script assigns to and a few fields it leaves
  alone. In the examples a float is written as its text.
\<close>

definition example_template :: "string yaml" where
  "example_template = YMap
     [(''template_volume_path'', YStr ''/ref/ribosome.mrc''),
      (''micrograph_path'', YStr ''/placeholder.mrc''),
      (''optics_group'', YMap
         [(''label'', YStr ''og1''),
          (''voltage'', YFloat ''300.0''),
          (''defocus_u'', YFloat ''0.0''),
          (''defocus_v'', YFloat ''0.0''),
          (''astigmatism_angle'', YFloat ''0.0'')]),
      (''computational_config'', YMap
         [(''gpu_ids'', YList [YInt 0]), (''num_cpus'', YInt 1)]),
      (''match_template_result'', YMap
         [(''allow_file_overwrite'', YBool True),
          (''mip_path'', YStr ''/templates/out/output_mip.mrc''),
          (''scaled_mip_path'', YStr ''output_scaled_mip.mrc'')])]"

definition example_micrograph :: string where
  "example_micrograph = ''/data/xenon_219_000_0.0_DWS.mrc''"

definition example_config_path :: string where
  "example_config_path = ''/results/xenon_219_000_0.0_DWS_config.yaml''"

text \<open>
  The document \<open>create_yaml_for_micrograph\<close> derives from the template for
  \<open>example_micrograph\<close>, calibration \<open>(12000.0, 11800.0, 35.2)\<close>, GPUs \<open>[0, 1]\<close> and
  \<open>example_config_path\<close>.
\<close>

definition example_derived :: "string yaml" where
  "example_derived = YMap
     [(''template_volume_path'', YStr ''/ref/ribosome.mrc''),
      (''micrograph_path'', YStr ''/data/xenon_219_000_0.0_DWS.mrc''),
      (''optics_group'', YMap
         [(''label'', YStr ''og1''),
          (''voltage'', YFloat ''300.0''),
          (''defocus_u'', YFloat ''12000.0''),
          (''defocus_v'', YFloat ''11800.0''),
          (''astigmatism_angle'', YFloat ''35.2'')]),
      (''computational_config'', YMap
         [(''gpu_ids'', YList [YInt 0, YInt 1]), (''num_cpus'', YInt 1)]),
      (''match_template_result'', YMap
         [(''allow_file_overwrite'', YBool True),
          (''mip_path'', YStr ''/results/xenon_219_000_0_output_mip.mrc''),
          (''scaled_mip_path'', YStr ''/results/xenon_219_000_0_output_scaled_mip.mrc'')])]"

section \<open>The export: \<open>export_relion.py\<close>\<close>

text \<open>
  A micrograph is a two-dimensional array, given as the list of its rows;
  \<open>micrograph.shape[-2]\<close> is the number of rows and \<open>micrograph.shape[-1]\<close> the length of
  a row. A particle row contributes its centre \<open>(center_x, center_y)\<close>, already
  truncated by \<open>int\<close>.
\<close>

definition shape_rows :: "'a list list \<Rightarrow> int" where
  "shape_rows m = int (length m)"

definition shape_cols :: "'a list list \<Rightarrow> int" where
  "shape_cols m = (case m of [] \<Rightarrow> 0 | r # rs \<Rightarrow> int (length r))"

text \<open>
  Lines 122--126 of \<open>create_particle_stacks\<close>: the box boundaries
  \<open>(x_start, x_end, y_start, y_end)\<close>. \<open>box_size // 2\<close> is the floor division.
\<close>

definition box_bounds :: "'a list list \<Rightarrow> int \<Rightarrow> int \<Rightarrow> int \<Rightarrow> int \<times> int \<times> int \<times> int" where
  "box_bounds micrograph box_size center_x center_y =
     (let half_box = box_size div 2;
          x_start = max 0 (center_x - half_box);
          y_start = max 0 (center_y - half_box);
          x_end = min (shape_cols micrograph) (center_x + half_box);
          y_end = min (shape_rows micrograph) (center_y + half_box)
      in (x_start, x_end, y_start, y_end))"

text \<open>
  \<open>padded_img[:copy_height, :copy_width] = particle_img[..., :copy_height, :copy_width]\<close>
  on a buffer of zeros of shape \<open>(box_size, box_size)\<close>: the entry at row \<open>r\<close>, column \<open>c\<close>
  of the buffer after the assignment.
\<close>

definition padded_entry :: "'a::zero list list \<Rightarrow> nat \<Rightarrow> nat \<Rightarrow> nat \<Rightarrow> nat \<Rightarrow> 'a" where
  "padded_entry particle_img copy_height copy_width r c =
     (if r < copy_height \<and> c < copy_width then particle_img ! r ! c else 0)"

text \<open>
  Lines 117--146 for one particle: \<open>Inl\<close> the warning printed when the row is skipped,
  \<open>Inr\<close> the padded image appended to the stack. Past the check of line 129 the four
  bounds lie within the image and are not negative, so the slices of line 134 are plain
  sub-ranges.
\<close>

definition crop_particle :: "'a::zero list list \<Rightarrow> int \<Rightarrow> int \<Rightarrow> int \<Rightarrow> string + 'a list list" where
  "crop_particle micrograph box_size center_x center_y =
     (case box_bounds micrograph box_size center_x center_y of
        (x_start, x_end, y_start, y_end) \<Rightarrow>
          if x_start \<ge> x_end \<or> y_start \<ge> y_end then
            Inl (''Warning: Invalid box coordinates for particle at ('' @ str_int center_x
                 @ '', '' @ str_int center_y @ '')'')
          else
            (let particle_img =
                   map (\<lambda>row. take (nat (x_end - x_start)) (drop (nat x_start) row))
                     (take (nat (y_end - y_start)) (drop (nat y_start) micrograph));
                 copy_height = min (nat (y_end - y_start)) (nat box_size);
                 copy_width = min (nat (x_end - x_start)) (nat box_size)
             in Inr (map (\<lambda>r. map (\<lambda>c. padded_entry particle_img copy_height copy_width r c)
                                  [0 ..< nat box_size])
                       [0 ..< nat box_size])))"

text \<open>
  The loop of lines 116--146 over the particle rows of one micrograph: the warnings
  printed and the stack built, in row order.
\<close>

fun crop_particles ::
  "'a::zero list list \<Rightarrow> int \<Rightarrow> (int \<times> int) list \<Rightarrow> string list \<times> 'a list list list"
where
  "crop_particles micrograph box_size [] = ([], [])"
| "crop_particles micrograph box_size ((center_x, center_y) # particles) =
     (case crop_particles micrograph box_size particles of
        (warnings, particle_stack) \<Rightarrow>
          (case crop_particle micrograph box_size center_x center_y of
             Inl warning \<Rightarrow> (warning # warnings, particle_stack)
           | Inr padded_img \<Rightarrow> (warnings, padded_img # particle_stack)))"

definition example_micrograph_data :: "int list list" where
  "example_micrograph_data =
     [[11, 12, 13, 14, 15, 16],
      [21, 22, 23, 24, 25, 26],
      [31, 32, 33, 34, 35, 36],
      [41, 42, 43, 44, 45, 46],
      [51, 52, 53, 54, 55, 56],
      [61, 62, 63, 64, 65, 66]]"

subsection \<open>\<open>get_ctf_parameters\<close>\<close>

text \<open>
  The characters \<open>str.split()\<close> and \<open>str.strip()\<close> treat as whitespace, among the
  code points below 256.
\<close>

definition is_space :: "char \<Rightarrow> bool" where
  "is_space c =
     (let n = of_char c :: nat
      in (9 \<le> n \<and> n \<le> 13) \<or> (28 \<le> n \<and> n \<le> 32) \<or> n = 133 \<or> n = 160)"

text \<open>
  \<open>s.split()\<close>: the maximal runs of non-whitespace characters of \<open>s\<close>, in order. The first
  argument is the run being read, reversed. \<open>line.strip().split()\<close> is the same list,
  since \<open>split()\<close> ignores leading and trailing whitespace.
\<close>

fun split_acc :: "string \<Rightarrow> string \<Rightarrow> string list" where
  "split_acc cur [] = (if cur = [] then [] else [rev cur])"
| "split_acc cur (c # cs) =
     (if is_space c then (if cur = [] then split_acc [] cs else rev cur # split_acc [] cs)
      else split_acc (c # cur) cs)"

definition py_split :: "string \<Rightarrow> string list" where
  "py_split s = split_acc [] s"

text \<open>
  Iterating a file opened in text mode: the lines of the text, each with its end-of-line
  kept as \<open>\n\<close>. Universal newlines read \<open>\r\n\<close> and a lone \<open>\r\<close> as \<open>\n\<close>.
\<close>

fun lines_acc :: "string \<Rightarrow> string \<Rightarrow> string list" where
  "lines_acc cur [] = (if cur = [] then [] else [rev cur])"
| "lines_acc cur (c # cs) =
     (if c = CHR 0x0A then rev (CHR 0x0A # cur) # lines_acc [] cs
      else if c = CHR 0x0D then
        (case cs of
           [] \<Rightarrow> [rev (CHR 0x0A # cur)]
         | d # ds \<Rightarrow>
             if d = CHR 0x0A then rev (CHR 0x0A # cur) # lines_acc [] ds
             else rev (CHR 0x0A # cur) # lines_acc [] cs)
      else lines_acc (c # cur) cs)"

definition file_lines :: "string \<Rightarrow> string list" where
  "file_lines content = lines_acc [] content"

definition startswith :: "string \<Rightarrow> string \<Rightarrow> bool" where
  "startswith s pre = (take (length pre) s = pre)"

definition float_or_raise :: "'f env \<Rightarrow> string \<Rightarrow> exn + 'f" where
  "float_or_raise env s =
     (case py_float env s of
        None \<Rightarrow> Inl (Exc ValueError (''could not convert string to float: '' @ quoted s))
      | Some x \<Rightarrow> Inr x)"

text \<open>
  The loop of \<open>get_ctf_parameters\<close> (lines 20--28) over the lines of the file, and the
  \<open>return None, None, None\<close> of line 29 when the loop ends: \<open>Inr None\<close> is the triple of
  \<open>None\<close>s, \<open>Inl\<close> the \<open>ValueError\<close> of a \<open>float\<close> conversion.
\<close>

fun ctf_loop :: "'f env \<Rightarrow> string list \<Rightarrow> exn + ('f \<times> 'f \<times> 'f) option" where
  "ctf_loop env [] = Inr None"
| "ctf_loop env (line # rest) =
     (if startswith line ''#'' then ctf_loop env rest
      else
        (let parts = py_split line in
         if length parts \<ge> 5 then
           bind_exn (float_or_raise env (parts ! 1)) (\<lambda>defocus_1.
           bind_exn (float_or_raise env (parts ! 2)) (\<lambda>defocus_2.
           bind_exn (float_or_raise env (parts ! 3)) (\<lambda>astigmatism_angle.
           Inr (Some (defocus_1, defocus_2, astigmatism_angle)))))
         else ctf_loop env rest))"

definition get_ctf_parameters ::
  "'f env \<Rightarrow> world \<Rightarrow> string \<Rightarrow> exn + ('f \<times> 'f \<times> 'f) option" where
  "get_ctf_parameters env w ctf_file_path =
     (case files w ctf_file_path of
        None \<Rightarrow> Inl (no_such_file ctf_file_path)
      | Some content \<Rightarrow> ctf_loop env (file_lines content))"

text \<open>
  The calibration record as the interface description words it: the fields at positions
  1, 2 and 3 of the first line that is not a comment. It is the reading of the
  specification, to be compared with \<open>ctf_loop\<close>.
\<close>

definition first_non_comment_fields :: "string list \<Rightarrow> (string \<times> string \<times> string) option" where
  "first_non_comment_fields lines =
     (case filter (\<lambda>line. \<not> startswith line ''#'') lines of
        [] \<Rightarrow> None
      | line # rest \<Rightarrow>
          (let parts = py_split line in
           if length parts \<ge> 4 then Some (parts ! 1, parts ! 2, parts ! 3) else None))"

text \<open>
  What the code returns: the same fields of the first line that is not a comment and has
  at least five fields.
\<close>

definition first_long_line_fields :: "string list \<Rightarrow> (string \<times> string \<times> string) option" where
  "first_long_line_fields lines =
     (case filter (\<lambda>line. \<not> startswith line ''#'' \<and> length (py_split line) \<ge> 5) lines of
        [] \<Rightarrow> None
      | line # rest \<Rightarrow> (let parts = py_split line in Some (parts ! 1, parts ! 2, parts ! 3)))"

subsection \<open>\<open>extract_micrograph_number\<close>\<close>

definition is_digit :: "char \<Rightarrow> bool" where
  "is_digit c = (let n = of_char c :: nat in 48 \<le> n \<and> n \<le> 57)"

text \<open>
  A match of \<open>xenon_(\d+)_(\d+)_\<close> at the start of \<open>s\<close>: the two groups. \<open>\d+\<close> is greedy,
  and the character after a maximal run of digits is not a digit, so a shorter run can
  never be followed by the underscore the pattern wants: the maximal run is the only
  candidate.
\<close>

definition match_xenon2 :: "string \<Rightarrow> (string \<times> string) option" where
  "match_xenon2 s =
     (if startswith s ''xenon_'' then
        (let r = drop 6 s; g1 = takeWhile is_digit r; r1 = dropWhile is_digit r in
         if g1 \<noteq> [] \<and> startswith r1 ''_'' then
           (let r2 = drop 1 r1; g2 = takeWhile is_digit r2; r3 = dropWhile is_digit r2 in
            if g2 \<noteq> [] \<and> startswith r3 ''_'' then Some (g1, g2) else None)
         else None)
      else None)"

text \<open>\<open>re.search\<close>: the match at the leftmost position that has one.\<close>

fun search_xenon2 :: "string \<Rightarrow> (string \<times> string) option" where
  "search_xenon2 [] = match_xenon2 []"
| "search_xenon2 (c # cs) =
     (case match_xenon2 (c # cs) of Some g \<Rightarrow> Some g | None \<Rightarrow> search_xenon2 cs)"

definition extract_micrograph_number :: "string \<Rightarrow> string option" where
  "extract_micrograph_number filename =
     (case search_xenon2 filename of
        Some (g1, g2) \<Rightarrow> Some (g1 @ ''_'' @ g2)
      | None \<Rightarrow> None)"

subsection \<open>\<open>process_micrograph\<close> and \<open>is_already_processed\<close>\<close>

text \<open>
  \<open>process_micrograph\<close> returns the world it leaves and either the boolean it returns or
  the exception that leaves it. The \<open>try\<close> of lines 100--114 encloses the engine only; its
  \<open>except Exception\<close> turns an exception of the engine into \<open>False\<close>, and lets
  \<open>KeyboardInterrupt\<close> through. The calls of \<open>get_ctf_parameters\<close> (line 81) and
  \<open>create_yaml_for_micrograph\<close> (line 89) stand before the \<open>try\<close>.
\<close>

definition process_micrograph ::
  "'f env \<Rightarrow> world \<Rightarrow> string \<Rightarrow> string \<Rightarrow> string \<Rightarrow> string \<Rightarrow> int list \<Rightarrow> int
     \<Rightarrow> world \<times> (exn + bool)"
where
  "process_micrograph env w micrograph_path template_yaml ctfs_dir output_dir gpu_ids batch_size =
     (let micrograph_basename = basename micrograph_path in
      case extract_micrograph_number micrograph_basename of
        None \<Rightarrow>
          (print (''Could not extract micrograph number from '' @ micrograph_basename) w,
           Inr False)
      | Some micrograph_number \<Rightarrow>
         (let ctf_filename = ''xenon_'' @ micrograph_number @ ''_0.0_diagnostic.txt'';
              ctf_file_path = path_join ctfs_dir ctf_filename in
          if \<not> path_exists w ctf_file_path then
            (print (''CTF file not found: '' @ ctf_file_path) w, Inr False)
          else
            (case get_ctf_parameters env w ctf_file_path of
               Inl e \<Rightarrow> (w, Inl e)
             | Inr None \<Rightarrow>
                 (print (''Could not extract defocus parameters from '' @ ctf_file_path) w,
                  Inr False)
             | Inr (Some (defocus_1, defocus_2, astigmatism_angle)) \<Rightarrow>
                (let custom_yaml_path =
                       path_join output_dir (splitext_root micrograph_basename @ ''_config.yaml'')
                 in case create_yaml_for_micrograph env w template_yaml micrograph_path
                           defocus_1 defocus_2 astigmatism_angle custom_yaml_path gpu_ids of
                      (w1, Inl e) \<Rightarrow> (w1, Inl e)
                    | (w1, Inr config) \<Rightarrow>
                       (let w2 = print (''Running match template for '' @ micrograph_basename
                                        @ '' with GPUs '' @ repr_int_list gpu_ids) w1;
                            csv_path =
                              path_join output_dir
                                (splitext_root micrograph_basename @ ''_results.csv'')
                        in case match_engine env w2 custom_yaml_path batch_size csv_path of
                             (w3, None) \<Rightarrow>
                               (print (''Successfully processed '' @ micrograph_basename) w3,
                                Inr True)
                           | (w3, Some e) \<Rightarrow>
                               if is_Exception e then
                                 (print (''Error processing '' @ micrograph_basename @ '': ''
                                         @ str_exn e) w3,
                                  Inr False)
                               else (w3, Inl e))))))"

definition is_already_processed :: "world \<Rightarrow> string \<Rightarrow> string \<Rightarrow> bool" where
  "is_already_processed w micrograph_path output_dir =
     (let micrograph_filename = basename micrograph_path;
          results_filename = splitext_root micrograph_filename @ ''_results.csv'';
          results_path = path_join output_dir results_filename
      in path_exists w results_path)"

section \<open>The refine stage: \<open>process_all_micrographs_refine.py\<close>\<close>

subsection \<open>\<open>extract_numeric_micrograph_id\<close>\<close>

text \<open>
  \<open>re.search(r'xenon_(\d+)_', filename)\<close> and \<open>int(match.group(1))\<close>. As for the pattern
  of the match stage, the maximal run of digits is the only candidate for the group.
\<close>

definition match_xenon1 :: "string \<Rightarrow> string option" where
  "match_xenon1 s =
     (if startswith s ''xenon_'' then
        (let r = drop 6 s; g1 = takeWhile is_digit r; r1 = dropWhile is_digit r in
         if g1 \<noteq> [] \<and> startswith r1 ''_'' then Some g1 else None)
      else None)"

fun search_xenon1 :: "string \<Rightarrow> string option" where
  "search_xenon1 [] = match_xenon1 []"
| "search_xenon1 (c # cs) =
     (case match_xenon1 (c # cs) of Some g \<Rightarrow> Some g | None \<Rightarrow> search_xenon1 cs)"

definition int_of_digits :: "string \<Rightarrow> int" where
  "int_of_digits ds = foldl (\<lambda>acc c. 10 * acc + (int (of_char c) - 48)) 0 ds"

definition extract_numeric_micrograph_id :: "string \<Rightarrow> int option" where
  "extract_numeric_micrograph_id filename =
     (case search_xenon1 filename of Some g \<Rightarrow> Some (int_of_digits g) | None \<Rightarrow> None)"

subsection \<open>\<open>create_yaml_for_refinement\<close>\<close>

definition overlay_refine_config ::
  "'f yaml \<Rightarrow> string \<Rightarrow> string \<Rightarrow> int list \<Rightarrow> exn + 'f yaml" where
  "overlay_refine_config config match_results_csv template_volume_path gpu_ids =
     bind_exn (set_item config ''template_volume_path'' (YStr template_volume_path)) (\<lambda>c1.
     bind_exn (set_nested c1 ''particle_stack'' ''df_path'' (YStr match_results_csv)) (\<lambda>c2.
     set_nested c2 ''computational_config'' ''gpu_ids'' (YList (map YInt gpu_ids))))"

definition create_yaml_for_refinement ::
  "'f env \<Rightarrow> world \<Rightarrow> string \<Rightarrow> string \<Rightarrow> string \<Rightarrow> string \<Rightarrow> int list
     \<Rightarrow> world \<times> (exn + 'f yaml)"
where
  "create_yaml_for_refinement env w template_yaml_path match_results_csv output_yaml_path
       template_volume_path gpu_ids =
     (case files w template_yaml_path of
        None \<Rightarrow> (w, Inl (no_such_file template_yaml_path))
      | Some template_text \<Rightarrow>
         (case bind_exn (yaml_safe_load env template_text) (\<lambda>config.
                 overlay_refine_config config match_results_csv template_volume_path gpu_ids) of
            Inl e \<Rightarrow> (w, Inl e)
          | Inr config \<Rightarrow>
             (case open_w_error env output_yaml_path of
                Some e \<Rightarrow> (w, Inl e)
              | None \<Rightarrow>
                 (w\<lparr>files := (files w)(output_yaml_path \<mapsto> yaml_dump env config)\<rparr>,
                  Inr config))))"

subsection \<open>\<open>process_micrograph_refinement\<close>\<close>

text \<open>
  \<open>extract_micrograph_number\<close> of this script is \<open>os.path.splitext(filename)[0]\<close>. The
  \<open>try\<close> of lines 78--101 encloses the engine; \<open>pd.read_csv\<close> (line 62) and
  \<open>create_yaml_for_refinement\<close> (line 69) stand before it.
\<close>

definition process_micrograph_refinement ::
  "'f env \<Rightarrow> world \<Rightarrow> string \<Rightarrow> string \<Rightarrow> string \<Rightarrow> string \<Rightarrow> string \<Rightarrow> int list \<Rightarrow> int
     \<Rightarrow> world \<times> (exn + bool)"
where
  "process_micrograph_refinement env w micrograph_path match_results_csv template_yaml
       output_dir template_volume_path gpu_ids batch_size =
     (let micrograph_basename = basename micrograph_path;
          micrograph_number = splitext_root micrograph_basename in
      if micrograph_number = [] then
        (print (''Could not extract micrograph number from '' @ micrograph_basename) w,
         Inr False)
      else
        (case files w match_results_csv of
           None \<Rightarrow>
             (print (''Match template results not found: '' @ match_results_csv) w, Inr False)
         | Some csv_text \<Rightarrow>
            (case read_csv_len env csv_text of
               Inl e \<Rightarrow> (w, Inl e)
             | Inr n_rows \<Rightarrow>
                 if n_rows = 0 then
                   (print (''No matches to refine in '' @ match_results_csv) w, Inr False)
                 else
                   (let custom_yaml_path =
                          path_join output_dir
                            (splitext_root micrograph_basename @ ''_refine_config.yaml'')
                    in case create_yaml_for_refinement env w template_yaml
                              match_results_csv custom_yaml_path template_volume_path gpu_ids of
                         (w1, Inl e) \<Rightarrow> (w1, Inl e)
                       | (w1, Inr config) \<Rightarrow>
                          (let w2 = print (''Running refine template for '' @ micrograph_basename
                                           @ '' results with GPUs '' @ repr_int_list gpu_ids) w1;
                               refine_output_csv =
                                 path_join output_dir
                                   (splitext_root micrograph_basename @ ''_refined_results.csv'')
                           in case refine_engine env w2 custom_yaml_path refine_output_csv
                                     batch_size of
                                (w3, Inr elapsed_time_str) \<Rightarrow>
                                  (print (''Successfully refined matches for ''
                                          @ micrograph_basename)
                                     (print (''Refinement wall time: '' @ elapsed_time_str) w3),
                                   Inr True)
                              | (w3, Inl e) \<Rightarrow>
                                  if is_Exception e then
                                    (print (''Error refining matches for '' @ micrograph_basename
                                            @ '': '' @ str_exn e) w3,
                                     Inr False)
                                  else (w3, Inl e))))))"

section \<open>The constrained-search stage: \<open>process_all_micrographs_constrained.py\<close>\<close>

subsection \<open>What the script calls from outside, and its log\<close>

text \<open>
  \<^item> \<open>now w\<close> is \<open>datetime.now().strftime("%Y-%m-%d %H:%M:%S")\<close> when the world is \<open>w\<close>.
  \<^item> \<open>getcwd\<close> is \<open>os.getcwd()\<close>.
  \<^item> \<open>read_csv_len_nohdr text\<close> is \<open>len(pd.read_csv(path, header=None))\<close>.
  \<^item> \<open>torch_probe\<close> is the outcome of \<open>import torch\<close> and the CUDA queries of lines
    163--165: an exception, \<open>None\<close> when CUDA is not available, or the device count.
  \<^item> \<open>cs_from_yaml w yaml\<close> is the exception \<open>ConstrainedSearchManager.from_yaml\<close> raises,
    if it raises.
  \<^item> \<open>dir_writable w dir\<close> is \<open>os.access(dir, os.W_OK)\<close>.
  \<^item> \<open>cs_run w yaml csv false_positives batch\<close> is \<open>run_constrained_search\<close> on the manager
    made from \<open>yaml\<close>; on success it returns the elapsed time as \<open>strftime\<close> prints it.
  \<^item> \<open>float_str x\<close> is \<open>str(x)\<close> for a float, and \<open>format_exc e\<close> is
    \<open>traceback.format_exc()\<close> while \<open>e\<close> is being handled.
\<close>

record 'f cs_env =
  now :: "world \<Rightarrow> string"
  getcwd :: string
  read_csv_len_nohdr :: "string \<Rightarrow> exn + nat"
  torch_probe :: "exn + nat option"
  cs_from_yaml :: "world \<Rightarrow> string \<Rightarrow> exn option"
  dir_writable :: "world \<Rightarrow> string \<Rightarrow> bool"
  cs_run :: "world \<Rightarrow> string \<Rightarrow> string \<Rightarrow> 'f \<Rightarrow> int \<Rightarrow> world \<times> (exn + string)"
  float_str :: "'f \<Rightarrow> string"
  format_exc :: "exn \<Rightarrow> string"

text \<open>
  \<open>error_log_file.write(log_message + "\n")\<close> and \<open>flush()\<close>, under \<open>if error_log_file:\<close>.
  A file object is true whether open or closed. Writing to a closed handle raises
  \<open>ValueError\<close> in Python; the script calls its loggers only while the handle is \<open>None\<close>
  or open, and here a write to a closed handle changes nothing.
\<close>

definition write_log :: "string \<Rightarrow> world \<Rightarrow> world" where
  "write_log log_message w =
     (case error_log_file w of
        None \<Rightarrow> w
      | Some (path, closed) \<Rightarrow>
          if closed then w
          else w\<lparr>files := (files w)(path \<mapsto>
                   (case files w path of None \<Rightarrow> [] | Some written \<Rightarrow> written)
                   @ log_message @ ''\<newline>'')\<rparr>)"

definition log_error :: "'f cs_env \<Rightarrow> string \<Rightarrow> bool \<Rightarrow> world \<Rightarrow> world" where
  "log_error cs message also_print w =
     (let timestamp = now cs w;
          log_message = ''['' @ timestamp @ ''] '' @ message;
          w1 = (if also_print then print message w else w)
      in write_log log_message w1)"

definition log_info :: "'f cs_env \<Rightarrow> string \<Rightarrow> bool \<Rightarrow> world \<Rightarrow> world" where
  "log_info cs message also_print w =
     (let timestamp = now cs w;
          log_message = ''['' @ timestamp @ ''] INFO: '' @ message;
          w1 = (if also_print then print message w else w)
      in write_log log_message w1)"

subsection \<open>\<open>create_yaml_for_constrained_search\<close>\<close>

definition overlay_constrained_config ::
  "'f yaml \<Rightarrow> string \<Rightarrow> string \<Rightarrow> string \<Rightarrow> int list \<Rightarrow> exn + 'f yaml" where
  "overlay_constrained_config config large_results_csv small_results_csv template_volume_path
       gpu_ids =
     bind_exn (set_item config ''template_volume_path'' (YStr template_volume_path)) (\<lambda>c1.
     bind_exn (set_nested c1 ''particle_stack_reference'' ''df_path'' (YStr large_results_csv))
       (\<lambda>c2.
     bind_exn (set_nested c2 ''particle_stack_constrained'' ''df_path'' (YStr small_results_csv))
       (\<lambda>c3.
     set_nested c3 ''computational_config'' ''gpu_ids'' (YList (map YInt gpu_ids)))))"

definition create_yaml_for_constrained_search ::
  "'f env \<Rightarrow> world \<Rightarrow> string \<Rightarrow> string \<Rightarrow> string \<Rightarrow> string \<Rightarrow> string \<Rightarrow> int list
     \<Rightarrow> world \<times> (exn + 'f yaml)"
where
  "create_yaml_for_constrained_search env w template_yaml_path large_results_csv
       small_results_csv output_yaml_path template_volume_path gpu_ids =
     (case files w template_yaml_path of
        None \<Rightarrow> (w, Inl (no_such_file template_yaml_path))
      | Some template_text \<Rightarrow>
         (case bind_exn (yaml_safe_load env template_text) (\<lambda>config.
                 overlay_constrained_config config large_results_csv small_results_csv
                   template_volume_path gpu_ids) of
            Inl e \<Rightarrow> (w, Inl e)
          | Inr config \<Rightarrow>
             (case open_w_error env output_yaml_path of
                Some e \<Rightarrow> (w, Inl e)
              | None \<Rightarrow>
                 (w\<lparr>files := (files w)(output_yaml_path \<mapsto> yaml_dump env config)\<rparr>,
                  Inr config))))"

subsection \<open>The \<open>try\<close> of \<open>process_micrograph_constrained_search\<close>\<close>

text \<open>
  A step of the \<open>try\<close> body takes the world and returns the world it leaves and the
  exception it raised, if any. \<open>run_steps\<close> runs steps in order up to the first that
  raises.
\<close>

type_synonym step = "world \<Rightarrow> world \<times> exn option"

fun run_steps :: "step list \<Rightarrow> step" where
  "run_steps [] w = (w, None)"
| "run_steps (s # ss) w =
     (case s w of (w1, None) \<Rightarrow> run_steps ss w1 | (w1, Some e) \<Rightarrow> (w1, Some e))"

definition logging :: "(world \<Rightarrow> world) \<Rightarrow> step" where
  "logging f w = (f w, None)"

definition raise_unless :: "(world \<Rightarrow> bool) \<Rightarrow> exn \<Rightarrow> step" where
  "raise_unless ok e w = (w, if ok w then None else Some e)"

text \<open>
  The inner \<open>try\<close>/\<open>except Exception as err: raise ValueError(prefix + str(err))\<close> of lines
  136--159: an exception of the inner body other than \<open>KeyboardInterrupt\<close> comes out as a
  \<open>ValueError\<close>.
\<close>

definition reraise_as_value_error :: "string \<Rightarrow> exn \<Rightarrow> exn" where
  "reraise_as_value_error prefix e =
     (if is_Exception e then Exc ValueError (prefix @ str_exn e) else e)"

text \<open>
  Lines 136--142 for the large results and 144--150 for the small ones; \<open>Name\<close> and
  \<open>name\<close> are \<open>Large\<close> and \<open>large\<close>, or \<open>Small\<close> and \<open>small\<close>.
\<close>

definition check_results_csv :: "'f cs_env \<Rightarrow> string \<Rightarrow> string \<Rightarrow> string \<Rightarrow> step" where
  "check_results_csv cs Name name results_csv w =
     (let prefix = ''Error reading '' @ name @ '' results CSV '' @ results_csv @ '': '' in
      case files w results_csv of
        None \<Rightarrow> (w, Some (reraise_as_value_error prefix (no_such_file results_csv)))
      | Some csv_text \<Rightarrow>
         (case read_csv_len_nohdr cs csv_text of
            Inl e \<Rightarrow> (w, Some (reraise_as_value_error prefix e))
          | Inr n_rows \<Rightarrow>
             (let w1 = log_info cs (''DEBUG: '' @ Name @ '' results CSV has '' @ str_nat n_rows
                                    @ '' rows'') False w
              in if n_rows = 0 then
                   (w1, Some (reraise_as_value_error prefix
                      (Exc ValueError (Name @ '' results CSV is empty: '' @ results_csv))))
                 else (w1, None))))"

text \<open>\<open>repr\<close> of a list of strings, as \<open>list(yaml_content.keys())\<close> is printed.\<close>

definition repr_str_list :: "string list \<Rightarrow> string" where
  "repr_str_list xs = ''['' @ join_comma (map quoted xs) @ '']''"

text \<open>
  Lines 153--159: the derived document is read back. A document that is not a mapping
  has no \<open>keys\<close>.
\<close>

definition check_yaml :: "'f env \<Rightarrow> 'f cs_env \<Rightarrow> string \<Rightarrow> step" where
  "check_yaml env cs custom_yaml_path w =
     (let prefix = ''Error parsing YAML config '' @ custom_yaml_path @ '': '' in
      case files w custom_yaml_path of
        None \<Rightarrow> (w, Some (reraise_as_value_error prefix (no_such_file custom_yaml_path)))
      | Some yaml_text \<Rightarrow>
         (case yaml_safe_load env yaml_text of
            Inl e \<Rightarrow> (w, Some (reraise_as_value_error prefix e))
          | Inr yaml_content \<Rightarrow>
             (let w1 = log_info cs ''DEBUG: YAML config loaded successfully'' False w in
              case yaml_content of
                YMap d \<Rightarrow>
                  (log_info cs (''DEBUG: YAML keys: '' @ repr_str_list (map fst d)) False w1,
                   None)
              | other \<Rightarrow>
                  (w1, Some (reraise_as_value_error prefix
                     (Exc AttributeError (quoted (type_name other)
                        @ '' object has no attribute '' @ quoted ''keys'')))))))"

text \<open>
  Lines 162--173: the GPU check. Only \<open>ImportError\<close> is caught here; any other exception
  of the probe leaves the step.
\<close>

fun warn_gpus :: "'f cs_env \<Rightarrow> nat \<Rightarrow> int list \<Rightarrow> world \<Rightarrow> world" where
  "warn_gpus cs available_gpus [] w = w"
| "warn_gpus cs available_gpus (gpu_id # rest) w =
     warn_gpus cs available_gpus rest
       (if gpu_id \<ge> int available_gpus then
          log_info cs (''WARNING: GPU '' @ str_int gpu_id @ '' not available (only ''
                       @ str_nat available_gpus @ '' GPUs detected)'') True w
        else w)"

fun is_ImportError :: "exn \<Rightarrow> bool" where
  "is_ImportError (Exc ImportError m) = True"
| "is_ImportError e = False"

definition check_gpus :: "'f cs_env \<Rightarrow> int list \<Rightarrow> step" where
  "check_gpus cs gpu_ids w =
     (case torch_probe cs of
        Inl e \<Rightarrow>
          if is_ImportError e then
            (log_info cs ''DEBUG: torch not available for GPU check'' False w, None)
          else (w, Some e)
      | Inr None \<Rightarrow>
          (log_info cs (''WARNING: CUDA not available, but GPU IDs specified: ''
                        @ repr_int_list gpu_ids) True w, None)
      | Inr (Some available_gpus) \<Rightarrow>
          (warn_gpus cs available_gpus gpu_ids
             (log_info cs (''DEBUG: CUDA available, '' @ str_nat available_gpus
                           @ '' GPUs detected'') False w),
           None))"

text \<open>
  Lines 189--199: the engine runs and the elapsed time is logged.
\<close>

definition run_search :: "'f cs_env \<Rightarrow> string \<Rightarrow> string \<Rightarrow> 'f \<Rightarrow> int \<Rightarrow> step" where
  "run_search cs custom_yaml_path constrained_output_csv false_positives batch_size w =
     (let w1 = log_info cs (''DEBUG: Starting constrained search with batch_size=''
                            @ str_int batch_size @ '', false_positives=''
                            @ float_str cs false_positives) False w
      in case cs_run cs w1 custom_yaml_path constrained_output_csv false_positives batch_size of
           (w2, Inl e) \<Rightarrow> (w2, Some e)
         | (w2, Inr elapsed_time_str) \<Rightarrow>
             (log_info cs (''Constrained search wall time: '' @ elapsed_time_str) True w2,
              None))"

text \<open>
  Lines 202--209: the output table is looked at. An exception of \<open>read_csv\<close> other than
  \<open>KeyboardInterrupt\<close> becomes a warning.
\<close>

definition check_output :: "'f cs_env \<Rightarrow> string \<Rightarrow> step" where
  "check_output cs constrained_output_csv w =
     (case files w constrained_output_csv of
        None \<Rightarrow>
          (log_info cs (''WARNING: Output CSV was not created: '' @ constrained_output_csv)
             True w, None)
      | Some csv_text \<Rightarrow>
         (case read_csv_len_nohdr cs csv_text of
            Inr n_rows \<Rightarrow>
              (log_info cs (''DEBUG: Output CSV created with '' @ str_nat n_rows @ '' rows'')
                 False w, None)
          | Inl e \<Rightarrow>
              if is_Exception e then
                (log_info cs (''WARNING: Output CSV exists but cannot be read: '' @ str_exn e)
                   True w, None)
              else (w, Some e)))"

text \<open>
  The body of the \<open>try\<close> (lines 117--212) in two parts: the steps before
  \<open>constrained_output_csv\<close> is assigned (line 181) and the steps after. The outcome is
  the world and, when a step raised, the exception with whether the variable was
  assigned by then.
\<close>

definition steps_before_output_path ::
  "'f env \<Rightarrow> 'f cs_env \<Rightarrow> string \<Rightarrow> string \<Rightarrow> string \<Rightarrow> string \<Rightarrow> string \<Rightarrow> int list
     \<Rightarrow> step list"
where
  "steps_before_output_path env cs micrograph_basename large_results_csv small_results_csv
       template_volume_path custom_yaml_path gpu_ids =
     [logging (log_info cs (''Running constrained search for '' @ micrograph_basename
                            @ '' with GPUs '' @ repr_int_list gpu_ids) True),
      logging (log_info cs ''DEBUG: Checking file existence and validity...'' False),
      raise_unless (\<lambda>w. path_exists w large_results_csv)
        (Exc FileNotFoundError (''Large results CSV not found: '' @ large_results_csv)),
      raise_unless (\<lambda>w. path_exists w small_results_csv)
        (Exc FileNotFoundError (''Small results CSV not found: '' @ small_results_csv)),
      raise_unless (\<lambda>w. path_exists w template_volume_path)
        (Exc FileNotFoundError (''Template volume not found: '' @ template_volume_path)),
      raise_unless (\<lambda>w. path_exists w custom_yaml_path)
        (Exc FileNotFoundError (''Custom YAML config not found: '' @ custom_yaml_path)),
      check_results_csv cs ''Large'' ''large'' large_results_csv,
      check_results_csv cs ''Small'' ''small'' small_results_csv,
      check_yaml env cs custom_yaml_path,
      check_gpus cs gpu_ids,
      logging (log_info cs ''DEBUG: Creating ConstrainedSearchManager from YAML...'' False),
      (\<lambda>w. (w, cs_from_yaml cs w custom_yaml_path)),
      logging (log_info cs ''DEBUG: ConstrainedSearchManager created successfully'' False)]"

definition steps_after_output_path ::
  "'f cs_env \<Rightarrow> string \<Rightarrow> string \<Rightarrow> string \<Rightarrow> string \<Rightarrow> 'f \<Rightarrow> int \<Rightarrow> step list"
where
  "steps_after_output_path cs micrograph_basename custom_yaml_path output_dir
       constrained_output_csv false_positives batch_size =
     [logging (log_info cs (''DEBUG: Output CSV path: '' @ constrained_output_csv) False),
      raise_unless (\<lambda>w. dir_writable cs w output_dir)
        (Exc PermissionError (''Output directory not writable: '' @ output_dir)),
      run_search cs custom_yaml_path constrained_output_csv false_positives batch_size,
      check_output cs constrained_output_csv,
      logging (log_info cs (''Successfully completed constrained search for ''
                            @ micrograph_basename) False)]"

definition try_body ::
  "'f env \<Rightarrow> 'f cs_env \<Rightarrow> world \<Rightarrow> string \<Rightarrow> string \<Rightarrow> string \<Rightarrow> string \<Rightarrow> string \<Rightarrow> string
     \<Rightarrow> int list \<Rightarrow> 'f \<Rightarrow> int \<Rightarrow> world \<times> (exn \<times> bool) option"
where
  "try_body env cs w micrograph_basename large_results_csv small_results_csv
       template_volume_path custom_yaml_path output_dir gpu_ids false_positives batch_size =
     (case run_steps (steps_before_output_path env cs micrograph_basename large_results_csv
                        small_results_csv template_volume_path custom_yaml_path gpu_ids) w of
        (w1, Some e) \<Rightarrow> (w1, Some (e, False))
      | (w1, None) \<Rightarrow>
         (let constrained_output_csv =
                path_join output_dir
                  (splitext_root micrograph_basename @ ''_constrained_results.csv'')
          in case run_steps (steps_after_output_path cs micrograph_basename custom_yaml_path
                               output_dir constrained_output_csv false_positives batch_size)
                    w1 of
               (w2, Some e) \<Rightarrow> (w2, Some (e, True))
             | (w2, None) \<Rightarrow> (w2, None)))"

subsection \<open>The \<open>except\<close> clauses\<close>

definition log_errors :: "'f cs_env \<Rightarrow> string list \<Rightarrow> world \<Rightarrow> world" where
  "log_errors cs messages w = foldl (\<lambda>w1 message. log_error cs message True w1) w messages"

text \<open>\<open>s.split('\n')\<close>, and the lines of a traceback that are not blank.\<close>

fun split_nl_acc :: "string \<Rightarrow> string \<Rightarrow> string list" where
  "split_nl_acc cur [] = [rev cur]"
| "split_nl_acc cur (c # cs) =
     (if c = CHR 0x0A then rev cur # split_nl_acc [] cs else split_nl_acc (c # cur) cs)"

definition traceback_lines :: "string \<Rightarrow> string list" where
  "traceback_lines tb_str =
     filter (\<lambda>line. \<exists>c \<in> set line. \<not> is_space c) (split_nl_acc [] tb_str)"

text \<open>
  The clauses of lines 214--262, tried in the order of the source, for an exception
  \<open>e\<close> of the \<open>try\<close> body. \<open>KeyboardInterrupt\<close> matches none of them. The last clause
  reads \<open>constrained_output_csv\<close> in its last but one line (line 260): when the exception
  came before line 181 the variable is unbound, and the clause itself raises
  \<open>UnboundLocalError\<close> after the lines logged so far.
\<close>

definition handle_exception ::
  "'f cs_env \<Rightarrow> world \<Rightarrow> exn \<Rightarrow> bool \<Rightarrow> string \<Rightarrow> string \<Rightarrow> string \<Rightarrow> string \<Rightarrow> string
     \<Rightarrow> string \<Rightarrow> string \<Rightarrow> string \<Rightarrow> int list \<Rightarrow> int \<Rightarrow> 'f \<Rightarrow> world \<times> (exn + bool)"
where
  "handle_exception cs w e output_path_bound micrograph_path micrograph_basename
       large_results_csv small_results_csv template_yaml custom_yaml_path template_volume_path
       output_dir gpu_ids batch_size false_positives =
     (case e of
        KeyboardInterrupt \<Rightarrow> (w, Inl e)
      | Exc FileNotFoundError m \<Rightarrow>
          (log_errors cs
             [''FILE NOT FOUND ERROR for '' @ micrograph_basename @ '':'',
              ''  '' @ m,
              ''  Current working directory: '' @ getcwd cs] w,
           Inr False)
      | Exc ValueError m \<Rightarrow>
          (log_errors cs
             [''VALUE ERROR for '' @ micrograph_basename @ '':'', ''  '' @ m] w,
           Inr False)
      | Exc PermissionError m \<Rightarrow>
          (log_errors cs
             [''PERMISSION ERROR for '' @ micrograph_basename @ '':'', ''  '' @ m] w,
           Inr False)
      | Exc ImportError m \<Rightarrow>
          (log_errors cs
             [''IMPORT ERROR for '' @ micrograph_basename @ '':'',
              ''  '' @ m,
              ''  This might indicate missing dependencies''] w,
           Inr False)
      | Exc kind m \<Rightarrow>
          (let w1 = log_errors cs
                 ([''UNEXPECTED ERROR for '' @ micrograph_basename @ '':'',
                   ''  Error type: '' @ kind_name kind,
                   ''  Error message: '' @ m,
                   ''  Full traceback:'']
                  @ map (\<lambda>line. ''    '' @ line) (traceback_lines (format_exc cs e))
                  @ [''  Debug information:'',
                     ''    - Micrograph path: '' @ micrograph_path,
                     ''    - Large results CSV: '' @ large_results_csv,
                     ''    - Small results CSV: '' @ small_results_csv,
                     ''    - Template YAML: '' @ template_yaml,
                     ''    - Custom YAML: '' @ custom_yaml_path,
                     ''    - Template volume: '' @ template_volume_path,
                     ''    - Output directory: '' @ output_dir,
                     ''    - GPU IDs: '' @ repr_int_list gpu_ids,
                     ''    - Batch size: '' @ str_int batch_size,
                     ''    - False positives: '' @ float_str cs false_positives]) w
           in if output_path_bound then
                (log_errors cs
                   [''    - Output CSV path: ''
                    @ path_join output_dir
                        (splitext_root micrograph_basename @ ''_constrained_results.csv''),
                    ''  '' @ replicate 50 (CHR ''='')] w1,
                 Inr False)
              else
                (w1, Inl (Exc UnboundLocalError
                   (''cannot access local variable '' @ quoted ''constrained_output_csv''
                    @ '' where it is not associated with a value'')))))"

subsection \<open>\<open>process_micrograph_constrained_search\<close>\<close>

text \<open>
  Lines 77--113 stand before the \<open>try\<close>: the checks that return \<open>False\<close>, \<open>pd.read_csv\<close>
  of the large results (line 94) and \<open>create_yaml_for_constrained_search\<close> (line 106).
\<close>

definition process_micrograph_constrained_search ::
  "'f env \<Rightarrow> 'f cs_env \<Rightarrow> world \<Rightarrow> string \<Rightarrow> string \<Rightarrow> string \<Rightarrow> string \<Rightarrow> string \<Rightarrow> string
     \<Rightarrow> int list \<Rightarrow> int \<Rightarrow> 'f \<Rightarrow> world \<times> (exn + bool)"
where
  "process_micrograph_constrained_search env cs w micrograph_path large_results_csv
       small_results_csv template_yaml output_dir template_volume_path gpu_ids batch_size
       false_positives =
     (let micrograph_basename = basename micrograph_path in
      case extract_micrograph_number micrograph_basename of
        None \<Rightarrow>
          (print (''Could not extract micrograph number from '' @ micrograph_basename) w,
           Inr False)
      | Some micrograph_number \<Rightarrow>
         (case files w large_results_csv of
            None \<Rightarrow>
              (print (''Large particle results not found: '' @ large_results_csv) w, Inr False)
          | Some large_text \<Rightarrow>
          if \<not> path_exists w small_results_csv then
            (print (''Small particle results not found: '' @ small_results_csv) w, Inr False)
          else
            (case read_csv_len env large_text of
               Inl e \<Rightarrow> (w, Inl e)
             | Inr n_rows \<Rightarrow>
                 if n_rows = 0 then
                   (print (''No large particle matches in '' @ large_results_csv) w, Inr False)
                 else
                   (let custom_yaml_path =
                          path_join output_dir
                            (splitext_root micrograph_basename @ ''_constrained_config.yaml'')
                    in case create_yaml_for_constrained_search env w template_yaml
                              large_results_csv small_results_csv custom_yaml_path
                              template_volume_path gpu_ids of
                         (w1, Inl e) \<Rightarrow> (w1, Inl e)
                       | (w1, Inr config) \<Rightarrow>
                          (case try_body env cs w1 micrograph_basename large_results_csv
                                  small_results_csv template_volume_path custom_yaml_path
                                  output_dir gpu_ids false_positives batch_size of
                             (w2, None) \<Rightarrow> (w2, Inr True)
                           | (w2, Some (e, output_path_bound)) \<Rightarrow>
                               handle_exception cs w2 e output_path_bound micrograph_path
                                 micrograph_basename large_results_csv small_results_csv
                                 template_yaml custom_yaml_path template_volume_path output_dir
                                 gpu_ids batch_size false_positives)))))"

section \<open>The \<open>main\<close> functions\<close>

subsection \<open>\<open>main\<close> of the match stage\<close>

text \<open>
  The options after \<open>argparse\<close>. The three scripts declare \<open>--micrographs-dir\<close>,
  \<open>--template-yaml\<close>, \<open>--output-dir\<close>, \<open>--gpus\<close>, \<open>--batch-size\<close> and \<open>--pattern\<close>
  alike; \<open>gpu_ids\<close> is the list that \<open>main\<close> parses from \<open>--gpus\<close> (line 143). The match
  stage adds \<open>--ctfs-dir\<close>.
\<close>

record common_args = range_args +
  micrographs_dir :: string
  template_yaml :: string
  output_dir :: string
  gpu_ids :: "int list"
  batch_size :: int
  pattern :: string

record match_args = common_args +
  ctfs_dir :: string

text \<open>
  The line that the block ``Determine which micrographs to process'' prints, if it
  prints one. It prints after the list has been replaced by the slice, so the length it
  shows is that of the slice.
\<close>

definition select_report :: "('r range_args_scheme) \<Rightarrow> 'a list \<Rightarrow> string option" where
  "select_report args micrograph_files =
     (let report = (\<lambda>start end_i.
            ''Processing micrographs '' @ str_int (start + 1) @ ''-'' @ str_int end_i
            @ '' out of '' @ str_nat (length (select_micrographs args micrograph_files)))
      in case (job_idx args, jobs_per_array args) of
           (Some j, Some k) \<Rightarrow>
             (let start = (j - 1) * k;
                  end_i = min (start + k) (int (length micrograph_files))
              in Some (report start end_i))
         | _ \<Rightarrow>
             (if start_idx args \<noteq> None \<or> end_idx args \<noteq> None then
                (let start = (case start_idx args of Some s \<Rightarrow> s | None \<Rightarrow> 0);
                     end_i = (case end_idx args of Some e \<Rightarrow> e
                              | None \<Rightarrow> int (length micrograph_files))
                 in Some (report start end_i))
              else None))"

definition print_opt :: "string option \<Rightarrow> world \<Rightarrow> world" where
  "print_opt line w = (case line of None \<Rightarrow> w | Some l \<Rightarrow> print l w)"

text \<open>
  The loop of lines 186--196 over the selected micrographs: \<open>n_files\<close> is the length of the
  selected list, \<open>i\<close> the index of the first micrograph still to do, \<open>successful\<close> the
  counter. An exception that leaves \<open>process_micrograph\<close> leaves the loop and \<open>main\<close>:
  the loop has no handler.
\<close>

fun match_loop ::
  "'f env \<Rightarrow> ('r match_args_scheme) \<Rightarrow> nat \<Rightarrow> nat \<Rightarrow> nat \<Rightarrow> world \<Rightarrow> string list
     \<Rightarrow> world \<times> (exn + nat)"
where
  "match_loop env args n_files i successful w [] = (w, Inr successful)"
| "match_loop env args n_files i successful w (micrograph_file # rest) =
     (let w1 = print (''Processing '' @ str_nat (i + 1) @ ''/'' @ str_nat n_files @ '': ''
                      @ basename micrograph_file) w
      in case process_micrograph env w1 micrograph_file (template_yaml args) (ctfs_dir args)
                (output_dir args) (gpu_ids args) (batch_size args) of
           (w2, Inl e) \<Rightarrow> (w2, Inl e)
         | (w2, Inr ok) \<Rightarrow>
             match_loop env args n_files (i + 1) (if ok then successful + 1 else successful)
               w2 rest)"

text \<open>
  The resume filter of lines 156--159, and the list \<open>main\<close> goes on to process: the
  unprocessed micrographs, cut to the range of the job.
\<close>

definition unprocessed_micrographs :: "world \<Rightarrow> string \<Rightarrow> string list \<Rightarrow> string list" where
  "unprocessed_micrographs w out_dir micrograph_files =
     filter (\<lambda>micrograph_file. \<not> is_already_processed w micrograph_file out_dir) micrograph_files"


subsection \<open>\<open>main\<close> of the refine stage\<close>

text \<open>
  The refine and the constrained-search scripts add \<open>--template-volume\<close> and
  \<open>--filter-numbers\<close>; \<open>filter_numbers\<close> is the list \<open>main\<close> parses from the option, \<open>None\<close>
  when the option is absent or empty. The refine script adds \<open>--match-results-dir\<close> and
  \<open>--results-suffix\<close>.
\<close>

record later_args = common_args +
  template_volume :: string
  filter_numbers :: "int list option"

record refine_args = later_args +
  match_results_dir :: string
  results_suffix :: string

text \<open>
  Lines 139--150: the files whose numeric id is among the numbers asked for. A file with
  no id has the id \<open>None\<close>, which is in no list of integers.
\<close>

definition filter_by_numbers :: "int list \<Rightarrow> string list \<Rightarrow> string list" where
  "filter_by_numbers numbers micrograph_files =
     filter (\<lambda>mgraph_file.
               case extract_numeric_micrograph_id (basename mgraph_file) of
                 None \<Rightarrow> False
               | Some mgraph_id \<Rightarrow> mgraph_id \<in> set numbers)
            micrograph_files"

text \<open>
  The list the loop of \<open>main\<close> runs over (lines 128--163): what \<open>glob\<close> found, filtered by
  number when asked, cut to the range of the job. No line of it reads the output
  directory.
\<close>

definition refine_selected :: "'f env \<Rightarrow> world \<Rightarrow> ('r later_args_scheme) \<Rightarrow> string list" where
  "refine_selected env w args =
     (let micrograph_files =
            glob_sorted env w (path_join (micrographs_dir args) (pattern args));
          filtered = (case filter_numbers args of
                        None \<Rightarrow> micrograph_files
                      | Some numbers \<Rightarrow> filter_by_numbers numbers micrograph_files)
      in select_micrographs args filtered)"

fun refine_loop ::
  "'f env \<Rightarrow> ('r refine_args_scheme) \<Rightarrow> nat \<Rightarrow> nat \<Rightarrow> nat \<Rightarrow> world \<Rightarrow> string list
     \<Rightarrow> world \<times> (exn + nat)"
where
  "refine_loop env args n_files i successful w [] = (w, Inr successful)"
| "refine_loop env args n_files i successful w (micrograph_file # rest) =
     (let micrograph_basename = basename micrograph_file;
          base_name = splitext_root micrograph_basename;
          match_results_csv =
            path_join (match_results_dir args) (base_name @ results_suffix args);
          w1 = print (''Processing '' @ str_nat (i + 1) @ ''/'' @ str_nat n_files @ '': ''
                      @ micrograph_basename) w
      in case process_micrograph_refinement env w1 micrograph_file match_results_csv
                (template_yaml args) (output_dir args) (template_volume args) (gpu_ids args)
                (batch_size args) of
           (w2, Inl e) \<Rightarrow> (w2, Inl e)
         | (w2, Inr ok) \<Rightarrow>
             refine_loop env args n_files (i + 1) (if ok then successful + 1 else successful)
               w2 rest)"

definition main_refine :: "'f env \<Rightarrow> world \<Rightarrow> ('r refine_args_scheme) \<Rightarrow> world \<times> (exn + int)" where
  "main_refine env w args =
     (let micrograph_pattern = path_join (micrographs_dir args) (pattern args);
          micrograph_files = glob_sorted env w micrograph_pattern in
      if micrograph_files = [] then
        (print (''No micrograph files found matching pattern '' @ micrograph_pattern) w, Inr 1)
      else
        (let w1 = print (''Found '' @ str_nat (length micrograph_files) @ '' micrograph files'') w;
             filtered = (case filter_numbers args of
                           None \<Rightarrow> micrograph_files
                         | Some numbers \<Rightarrow> filter_by_numbers numbers micrograph_files);
             w2 = (case filter_numbers args of
                     None \<Rightarrow> w1
                   | Some numbers \<Rightarrow>
                       print (''After filtering: '' @ str_nat (length filtered)
                              @ '' micrograph files'')
                         (print (''Filtering for micrograph numbers: ''
                                 @ repr_int_list numbers) w1));
             selected = select_micrographs args filtered;
             w3 = print_opt (select_report args filtered) w2
         in case refine_loop env args (length selected) 0 0 w3 selected of
              (w4, Inl e) \<Rightarrow> (w4, Inl e)
            | (w4, Inr successful) \<Rightarrow>
                (print (''Successfully refined matches for '' @ str_nat successful @ ''/''
                        @ str_nat (length selected) @ '' micrographs'') w4,
                 Inr 0)))"

subsection \<open>\<open>main\<close> of the constrained-search stage\<close>

text \<open>
  The constrained-search script adds the two results directories and suffixes,
  \<open>--false-positives\<close> and \<open>--error-log\<close>; \<open>gpus\<close> is the text of \<open>--gpus\<close>, which the
  script logs as it is.
\<close>

record 'f constrained_args = later_args +
  large_results_dir :: string
  small_results_dir :: string
  large_suffix :: string
  small_suffix :: string
  false_positives :: 'f
  error_log :: "string option"
  gpus :: string

text \<open>
  The body of the loop of lines 356--385 for the micrographs still to do. The loop
  returns the world, the counter \<open>successful\<close> and the exception that ended it early, if
  any: the counter is read after the \<open>try\<close> whichever way the loop ended.
\<close>

fun constrained_loop ::
  "'f env \<Rightarrow> 'f cs_env \<Rightarrow> (('f, 'r) constrained_args_scheme) \<Rightarrow> nat \<Rightarrow> nat \<Rightarrow> nat \<Rightarrow> world
     \<Rightarrow> string list \<Rightarrow> world \<times> nat \<times> exn option"
where
  "constrained_loop env cs args n_files i successful w [] = (w, successful, None)"
| "constrained_loop env cs args n_files i successful w (micrograph_file # rest) =
     (let micrograph_basename = basename micrograph_file;
          base_name = splitext_root micrograph_basename;
          large_results_csv =
            path_join (large_results_dir args) (base_name @ large_suffix args);
          small_results_csv =
            path_join (small_results_dir args) (base_name @ small_suffix args);
          progress = ''Processing '' @ str_nat (i + 1) @ ''/'' @ str_nat n_files @ '': ''
                     @ micrograph_basename;
          w1 = log_info cs (''  Small results CSV: '' @ small_results_csv) True
                 (log_info cs (''  Large results CSV: '' @ large_results_csv) True
                    (log_info cs progress True (print progress w)))
      in case process_micrograph_constrained_search env cs w1 micrograph_file large_results_csv
                small_results_csv (template_yaml args) (output_dir args) (template_volume args)
                (gpu_ids args) (batch_size args) (false_positives args) of
           (w2, Inl e) \<Rightarrow> (w2, successful, Some e)
         | (w2, Inr ok) \<Rightarrow>
             (let w3 = (if ok then
                          log_info cs (''SUCCESS: '' @ micrograph_basename
                                       @ '' processed successfully'') True w2
                        else
                          log_info cs (''FAILED: '' @ micrograph_basename
                                       @ '' failed to process'') True w2);
                  w4 = log_info cs (replicate 40 (CHR ''-'')) True w3
              in constrained_loop env cs args n_files (i + 1)
                   (if ok then successful + 1 else successful) w4 rest))"

text \<open>
  The \<open>except\<close> clauses of the loop (lines 387--392) and the \<open>finally\<close> (lines 393--396).
\<close>

definition after_loop :: "'f cs_env \<Rightarrow> exn option \<Rightarrow> world \<Rightarrow> world" where
  "after_loop cs raised w =
     (case raised of
        None \<Rightarrow> w
      | Some KeyboardInterrupt \<Rightarrow>
          print ''Processing interrupted by user (Ctrl+C)''
            (log_error cs ''Processing interrupted by user (Ctrl+C)'' True w)
      | Some (Exc kind m) \<Rightarrow>
          print (''Unexpected error during processing: '' @ m)
            (log_error cs (''Unexpected error during processing: '' @ m) True w))"

definition close_log :: "world \<Rightarrow> world" where
  "close_log w =
     (case error_log_file w of
        None \<Rightarrow> w
      | Some (path, closed) \<Rightarrow> w\<lparr>error_log_file := Some (path, True)\<rparr>)"

text \<open>
  Lines 398--403: the final summary, under
  \<open>if error_log_file and not error_log_file.closed\<close>.
\<close>

definition log_summary :: "'f cs_env \<Rightarrow> nat \<Rightarrow> nat \<Rightarrow> world \<Rightarrow> world" where
  "log_summary cs successful n_files w =
     (case error_log_file w of
        Some (path, False) \<Rightarrow>
          (let w1 = log_info cs ''Processing complete!'' True w;
               w2 = log_info cs (''Successfully completed constrained search for ''
                                 @ str_nat successful @ ''/'' @ str_nat n_files
                                 @ '' micrographs'') True w1;
               w3 = log_info cs (''Failed: '' @ str_nat (n_files - successful) @ ''/''
                                 @ str_nat n_files @ '' micrographs'') True w2
           in log_info cs (''Finished at '' @ now cs w3) True w3)
      | _ \<Rightarrow> w)"

definition main_constrained ::
  "'f env \<Rightarrow> 'f cs_env \<Rightarrow> world \<Rightarrow> (('f, 'r) constrained_args_scheme) \<Rightarrow> world \<times> (exn + int)"
where
  "main_constrained env cs w args =
     (let error_log_path =
            (case error_log args of
               None \<Rightarrow> path_join (output_dir args) ''constrained_search_errors.log''
             | Some p \<Rightarrow>
                 if p \<noteq> [] then p
                 else path_join (output_dir args) ''constrained_search_errors.log'')
      in case open_w_error env error_log_path of
           Some e \<Rightarrow>
             if is_Exception e then
               (print (''ERROR: Could not create error log file '' @ error_log_path @ '': ''
                       @ str_exn e) w, Inr 1)
             else (w, Inl e)
         | None \<Rightarrow>
            (let w0 = w\<lparr>files := (files w)(error_log_path \<mapsto> []),
                        error_log_file := Some (error_log_path, False)\<rparr>;
                 w1 = foldl (\<lambda>w' message. log_info cs message True w') w0
                        [''Starting constrained search processing at '' @ now cs w0,
                         ''Error log file: '' @ error_log_path,
                         ''Output directory: '' @ output_dir args,
                         ''GPU IDs: '' @ gpus args,
                         ''Batch size: '' @ str_int (batch_size args),
                         ''False positives: '' @ float_str cs (false_positives args),
                         replicate 60 (CHR ''='')];
                 micrograph_pattern = path_join (micrographs_dir args) (pattern args);
                 micrograph_files = glob_sorted env w1 micrograph_pattern
             in if micrograph_files = [] then
                  (print (''No micrograph files found matching pattern '' @ micrograph_pattern)
                     w1, Inr 1)
                else
                  (let w2 = print (''Found '' @ str_nat (length micrograph_files)
                                   @ '' micrograph files'') w1;
                       filtered = (case filter_numbers args of
                                     None \<Rightarrow> micrograph_files
                                   | Some numbers \<Rightarrow>
                                       filter_by_numbers numbers micrograph_files);
                       w3 = (case filter_numbers args of
                               None \<Rightarrow> w2
                             | Some numbers \<Rightarrow>
                                 (let asked = ''Filtering for micrograph numbers: ''
                                              @ repr_int_list numbers;
                                      kept = ''After filtering: '' @ str_nat (length filtered)
                                             @ '' micrograph files''
                                  in log_info cs kept True
                                       (print kept
                                          (log_info cs asked True (print asked w2)))));
                       selected = select_micrographs args filtered;
                       w4 = print_opt (select_report args filtered) w3
                   in case constrained_loop env cs args (length selected) 0 0 w4 selected of
                        (w5, successful, raised) \<Rightarrow>
                          (let w6 = close_log (after_loop cs raised w5);
                               w7 = log_summary cs successful (length selected) w6;
                               w8 = print (''Successfully completed constrained search for ''
                                           @ str_nat successful @ ''/''
                                           @ str_nat (length selected) @ '' micrographs'') w7
                           in (print (''Detailed error log saved to: '' @ error_log_path) w8,
                               Inr 0)))))"

text \<open>
  The lines of the file the log handle was opened on, as written so far.
\<close>

definition log_lines :: "world \<Rightarrow> string list" where
  "log_lines w =
     (case error_log_file w of
        None \<Rightarrow> []
      | Some (path, closed) \<Rightarrow>
          (case files w path of None \<Rightarrow> [] | Some written \<Rightarrow> file_lines written))"

section \<open>A world for the examples\<close>

text \<open>
  Two micrographs, their CTFFIND diagnostic files and the template. The example engine
  fails on micrograph 219 with an ordinary exception and succeeds on every other one,
  leaving the results table. The example \<open>float\<close> accepts digits and dots. The example
  YAML library knows the three templates by their text, dumps every derived document but
  one as \<open><derived>\<close>, and reads that text back as a mapping with the keys of the
  constrained-search template.
\<close>

definition example_files :: "string list" where
  "example_files =
     [''/data/xenon_219_000_0.0_DWS.mrc'', ''/data/xenon_220_000_0.0_DWS.mrc'']"

definition example_refine_template :: "string yaml" where
  "example_refine_template = YMap
     [(''template_volume_path'', YStr ''/placeholder.mrc''),
      (''particle_stack'', YMap
         [(''df_path'', YStr ''/placeholder.csv''), (''extracted_box_size'', YInt 528)]),
      (''computational_config'', YMap [(''gpu_ids'', YList [YInt 0])])]"

definition example_constrained_template :: "string yaml" where
  "example_constrained_template = YMap
     [(''template_volume_path'', YStr ''/placeholder.mrc''),
      (''particle_stack_reference'', YMap [(''df_path'', YStr ''/placeholder.csv'')]),
      (''particle_stack_constrained'', YMap [(''df_path'', YStr ''/placeholder.csv'')]),
      (''computational_config'', YMap [(''gpu_ids'', YList [YInt 0])])]"

definition example_env :: "string env" where
  "example_env =
     \<lparr>yaml_safe_load = (\<lambda>s.
         if s = ''<template>'' then Inr example_template
         else if s = ''<refine template>'' then Inr example_refine_template
         else if s = ''<constrained template>'' \<or> s = ''<derived>''
           then Inr example_constrained_template
         else Inl (Exc (OtherError ''ScannerError'') ''could not parse the document'')),
      yaml_dump = (\<lambda>c. if c = example_derived then ''<derived 219>'' else ''<derived>''),
      py_float = (\<lambda>s. if s \<noteq> [] \<and> list_all (\<lambda>c. is_digit c \<or> c = CHR ''.'') s
                        then Some s else None),
      open_w_error = (\<lambda>p. None),
      match_engine = (\<lambda>w yaml batch csv.
         if yaml = ''/results/xenon_219_000_0.0_DWS_config.yaml''
         then (w, Some (Exc (OtherError ''RuntimeError'') ''CUDA out of memory''))
         else (w\<lparr>files := (files w)(csv \<mapsto> ''<results>'')\<rparr>, None)),
      read_csv_len = (\<lambda>t. if t = [] then Inl (Exc ValueError ''No columns to parse from file'')
                           else Inr (length (file_lines t) - 1)),
      refine_engine = (\<lambda>w yaml csv batch.
         if yaml = ''/refined/xenon_219_000_0.0_DWS_refine_config.yaml''
         then (w, Inl (Exc (OtherError ''RuntimeError'') ''CUDA out of memory''))
         else (w\<lparr>files := (files w)(csv \<mapsto> ''<refined>'')\<rparr>, Inr ''00:00:07'')),
      glob_sorted = (\<lambda>w p. if p = ''/data/*DWS.mrc'' then example_files else [])\<rparr>"

definition example_world :: world where
  "example_world =
     \<lparr>files = map_of
        [(''/templates/match.yaml'', ''<template>''),
         (''/ctf/xenon_219_000_0.0_diagnostic.txt'',
          ''# Columns: #1 - micrograph number; #2 - defocus 1; #3 - defocus 2\<newline>1.0 12000.0 11800.0 35.2 0.0 0.95 4.2\<newline>''),
         (''/ctf/xenon_220_000_0.0_diagnostic.txt'',
          ''# Columns: #1 - micrograph number; #2 - defocus 1; #3 - defocus 2\<newline>1.0 13000.0 12800.0 40.0 0.0 0.93 4.5\<newline>'')],
      stdout = [], error_log_file = None\<rparr>"

definition example_args :: match_args where
  "example_args =
     \<lparr>start_idx = None, end_idx = None, job_idx = None, jobs_per_array = None,
      micrographs_dir = ''/data'', template_yaml = ''/templates/match.yaml'',
      output_dir = ''/results'', gpu_ids = [0, 1], batch_size = 8,
      pattern = ''*DWS.mrc'', ctfs_dir = ''/ctf''\<rparr>"

text \<open>
  Two variants of the example world. In the first, the diagnostic file of micrograph 219
  has a four-field line before its seven-field line, and in \<open>example_world_short\<close> the
  four-field line only. In the second, its third field is not a number.
\<close>

definition example_ctf_two_lines :: string where
  "example_ctf_two_lines =
     ''# CTF header\<newline>1.0 12000.0 11800.0 35.2\<newline>2.0 13000.0 12800.0 40.0 0.0 0.93 4.5\<newline>''"

definition example_ctf_short :: string where
  "example_ctf_short = ''# CTF header\<newline>1.0 12000.0 11800.0 35.2\<newline>''"

definition example_world_short :: world where
  "example_world_short =
     example_world\<lparr>files := (files example_world)
        (''/ctf/xenon_219_000_0.0_diagnostic.txt'' \<mapsto> example_ctf_short)\<rparr>"

definition example_world_bad_float :: world where
  "example_world_bad_float =
     example_world\<lparr>files := (files example_world)
        (''/ctf/xenon_219_000_0.0_diagnostic.txt'' \<mapsto>
           ''1.0 12000.0 n/a 35.2 0.0 0.95 4.2\<newline>'')\<rparr>"

text \<open>
  A world for the refine stage: both micrographs have match results, and the refined
  results of micrograph 220 exist already.
\<close>

definition example_world_refine :: world where
  "example_world_refine =
     \<lparr>files = map_of
        [(''/templates/refine.yaml'', ''<refine template>''),
         (''/results/xenon_219_000_0.0_DWS_results.csv'', ''pos_x,pos_y\<newline>10,20\<newline>''),
         (''/results/xenon_220_000_0.0_DWS_results.csv'', ''pos_x,pos_y\<newline>30,40\<newline>''),
         (''/refined/xenon_220_000_0.0_DWS_refined_results.csv'', ''<refined earlier>'')],
      stdout = [], error_log_file = None\<rparr>"

definition example_refine_args :: refine_args where
  "example_refine_args =
     \<lparr>start_idx = None, end_idx = None, job_idx = None, jobs_per_array = None,
      micrographs_dir = ''/data'', template_yaml = ''/templates/refine.yaml'',
      output_dir = ''/refined'', gpu_ids = [0, 1], batch_size = 64,
      pattern = ''*DWS.mrc'', template_volume = ''/ref/ribosome.mrc'', filter_numbers = None,
      match_results_dir = ''/results'', results_suffix = ''_results.csv''\<rparr>"

text \<open>
  A world for the constrained-search stage: micrograph 219 has no large results, micrograph
  220 has both tables, and the operator interrupts the engine while it runs.
\<close>

definition example_cs_env :: "string cs_env" where
  "example_cs_env =
     \<lparr>now = (\<lambda>w. ''2025-09-12 11:40:05''),
      getcwd = ''/work'',
      read_csv_len_nohdr = (\<lambda>t. if t = [] then Inl (Exc ValueError ''No columns to parse from file'')
                                 else Inr (length (file_lines t))),
      torch_probe = Inr (Some 2),
      cs_from_yaml = (\<lambda>w yaml. None),
      dir_writable = (\<lambda>w dir. True),
      cs_run = (\<lambda>w yaml csv fp batch. (w, Inl KeyboardInterrupt)),
      float_str = (\<lambda>x. x),
      format_exc = (\<lambda>e. ''Traceback (most recent call last):\<newline>'')\<rparr>"

definition example_world_constrained :: world where
  "example_world_constrained =
     \<lparr>files = map_of
        [(''/templates/constrained.yaml'', ''<constrained template>''),
         (''/refined/xenon_220_000_0.0_DWS_refined_results.csv'', ''pos_x,pos_y\<newline>30,40\<newline>''),
         (''/small/xenon_220_000_0.0_DWS_results.csv'', ''pos_x,pos_y\<newline>31,41\<newline>''),
         (''/ref/small.mrc'', ''<volume>'')],
      stdout = [], error_log_file = None\<rparr>"

definition example_constrained_args :: "string constrained_args" where
  "example_constrained_args =
     \<lparr>start_idx = None, end_idx = None, job_idx = None, jobs_per_array = None,
      micrographs_dir = ''/data'', template_yaml = ''/templates/constrained.yaml'',
      output_dir = ''/constrained'', gpu_ids = [0, 1], batch_size = 80,
      pattern = ''*DWS.mrc'', template_volume = ''/ref/small.mrc'', filter_numbers = None,
      large_results_dir = ''/refined'', small_results_dir = ''/small'',
      large_suffix = ''_refined_results.csv'', small_suffix = ''_results.csv'',
      false_positives = ''0.005'', error_log = None, gpus = ''0,1''\<rparr>"

section \<open>Properties\<close>

subsection \<open>Python values\<close>

lemma bind_exn_Inr:
  "bind_exn m f = Inr y \<longleftrightarrow> (\<exists>x. m = Inr x \<and> f x = Inr y)"
  by (cases m) (auto simp: bind_exn_def)



subsection \<open>Documents\<close>



lemma basename_of_Inr: "basename_of v = Inr f \<longleftrightarrow> (\<exists>p. v = YStr p \<and> f = basename p)"
  by (cases v) auto




subsection \<open>The rewriting loop of \<open>create_yaml_for_micrograph\<close>\<close>

lemma map_fst_update_present:
  "map_of d k = Some v \<Longrightarrow> map fst (AList.update k v' d) = map fst d"
  by (induction d) (auto split: if_splits)

lemma rewrite_dict_step:
  assumes "rewrite_dict mb rd (k # ks) d = Inr d'" "k \<noteq> afo"
  obtains p where "map_of d k = Some (YStr p)"
    and "rewrite_dict mb rd ks (AList.update k (YStr (new_path mb rd (basename p))) d) = Inr d'"
  using assms by (auto simp: bind_exn_Inr basename_of_Inr split: option.splits)

lemma rewrite_dict_keys:
  "rewrite_dict mb rd ks d = Inr d' \<Longrightarrow> map fst d' = map fst d"
proof (induction ks arbitrary: d)
  case Nil
  then show ?case by simp
next
  case (Cons k ks)
  show ?case
  proof (cases "k = afo")
    case True
    with Cons show ?thesis by simp
  next
    case False
    from rewrite_dict_step[OF Cons.prems False] obtain p where
      p: "map_of d k = Some (YStr p)"
      and r: "rewrite_dict mb rd ks (AList.update k (YStr (new_path mb rd (basename p))) d) = Inr d'"
      by blast
    from Cons.IH[OF r] p show ?thesis by (simp add: map_fst_update_present)
  qed
qed




lemmas example_eval =
  overlay_match_config_def example_template_def example_derived_def set_nested_def
  bind_exn_def afo_def new_path_def path_join_def basename_def dirname_def
  before_first_dot_def example_micrograph_def example_config_path_def derived_at_def

lemma example_overlay:
  "overlay_match_config example_template example_micrograph ''12000.0'' ''11800.0''
     ''35.2'' example_config_path [0, 1] = Inr example_derived"
  by (simp add: example_eval)

subsection \<open>Claims about the derived match-stage configuration\<close>




text \<open>
  Claim C5 fails on the code: two different micrographs whose file names agree up to the
  first dot get the same prefix, since the prefix is \<open>basename.split('.')[0]\<close>, and their
  derived configurations name the same output files.
\<close>

theorem output_paths_collide:
  "''/data/xenon_219_000_0.0_DWS.mrc'' \<noteq> ''/data/xenon_219_000_0.5_DWS.mrc'' \<and>
   derived_at [''match_template_result'', ''mip_path'']
     (overlay_match_config example_template ''/data/xenon_219_000_0.0_DWS.mrc''
        ''12000.0'' ''11800.0'' ''35.2'' ''/results/xenon_219_000_0.0_DWS_config.yaml'' [0]) =
     Some (YStr ''/results/xenon_219_000_0_output_mip.mrc'') \<and>
   derived_at [''match_template_result'', ''mip_path'']
     (overlay_match_config example_template ''/data/xenon_219_000_0.5_DWS.mrc''
        ''12000.0'' ''11800.0'' ''35.2'' ''/results/xenon_219_000_0.5_DWS_config.yaml'' [0]) =
     Some (YStr ''/results/xenon_219_000_0_output_mip.mrc'')"
  by (simp add: example_eval)



subsection \<open>Claims about the particle crops of \<open>export_relion.py\<close>\<close>

lemma box_bounds_clamped:
  assumes "box_bounds m b cx cy = (x_start, x_end, y_start, y_end)"
  shows "0 \<le> x_start \<and> 0 \<le> y_start \<and> x_end \<le> shape_cols m \<and> y_end \<le> shape_rows m"
  using assms by (auto simp: box_bounds_def Let_def)

lemma crop_particle_skipped:
  assumes "box_bounds m b cx cy = (x_start, x_end, y_start, y_end)"
    and "x_start \<ge> x_end \<or> y_start \<ge> y_end"
  shows "\<exists>warning. crop_particle m b cx cy = Inl warning"
  using assms by (auto simp: crop_particle_def)

lemma crop_particle_shape:
  assumes "crop_particle m b cx cy = Inr padded_img"
  shows "length padded_img = nat b \<and> (\<forall>row \<in> set padded_img. length row = nat b)"
  using assms by (auto simp: crop_particle_def Let_def split: prod.splits if_splits)

text \<open>
  Claim C8 fails on the code at the image corner \<open>(0, 0)\<close>. With a box of 4 on a
  6 by 6 micrograph the box reaches two pixels past the top and the left edge, and the
  clamped region is rows 0--1, columns 0--1. The code copies it to rows 0--1, columns 0--1
  of the buffer, so the zero padding lies at the bottom and the right of the buffer: on
  the two sides where the image had pixels, not on the two out-of-bounds sides. The centre
  pixel \<open>11\<close> ends at buffer position \<open>(0, 0)\<close>, where a box that is wholly inside the image
  has its centre pixel at \<open>(2, 2)\<close> (the second crop, centre \<open>(3, 3)\<close>, pixel \<open>44\<close>).
\<close>

theorem crop_at_corner_pads_wrong_sides:
  "box_bounds example_micrograph_data 4 0 0 = (0, 2, 0, 2) \<and>
   crop_particle example_micrograph_data 4 0 0 =
     Inr [[11, 12, 0, 0], [21, 22, 0, 0], [0, 0, 0, 0], [0, 0, 0, 0]] \<and>
   crop_particle example_micrograph_data 4 3 3 =
     Inr [[22, 23, 24, 25], [32, 33, 34, 35], [42, 43, 44, 45], [52, 53, 54, 55]]"
  by (simp add: crop_particle_def box_bounds_def example_micrograph_data_def shape_cols_def
        shape_rows_def padded_entry_def Let_def upt_rec)

subsection \<open>Claims about the range of a job\<close>

lemma unprocessed_print [simp]:
  "unprocessed_micrographs (print line w) out items = unprocessed_micrographs w out items"
  by (simp add: unprocessed_micrographs_def is_already_processed_def path_exists_def print_def)






subsection \<open>Claim about deriving twice\<close>

text \<open>
  Claim C6. Deriving twice from the same template and the same item inputs writes the
  same bytes: when a derivation has succeeded and the template file still holds what it
  held, a second derivation with the same arguments returns the same document and
  leaves the file system as the first one left it, the derived file included.
\<close>

theorem create_yaml_rerun_identical:
  assumes "create_yaml_for_micrograph env w tp mp d1 d2 a op gids = (w1, Inr c)"
    and "files w1 tp = files w tp"
  shows "create_yaml_for_micrograph env w1 tp mp d1 d2 a op gids = (w1, Inr c) \<and>
         files w1 op = Some (yaml_dump env c)"
proof -
  from assms(1) obtain content where
    t: "files w tp = Some content"
    and c: "bind_exn (yaml_safe_load env content) (\<lambda>config.
                 overlay_match_config config mp d1 d2 a op gids) = Inr c"
    and o: "open_w_error env op = None"
    and w1: "w1 = w\<lparr>files := (files w)(op \<mapsto> yaml_dump env c)\<rparr>"
    by (auto simp: create_yaml_for_micrograph_def split: option.splits sum.splits)
  have "w1\<lparr>files := (files w1)(op \<mapsto> yaml_dump env c)\<rparr> = w1"
    using w1 by simp
  then show ?thesis
    using t c o assms(2) w1 by (simp add: create_yaml_for_micrograph_def)
qed

theorem create_yaml_rerun_identical_witness:
  "create_yaml_for_micrograph example_env example_world ''/templates/match.yaml''
     example_micrograph ''12000.0'' ''11800.0'' ''35.2'' example_config_path [0, 1] =
     (example_world\<lparr>files := (files example_world)(example_config_path \<mapsto> ''<derived 219>'')\<rparr>,
      Inr example_derived) \<and>
   create_yaml_for_micrograph example_env
     (example_world\<lparr>files := (files example_world)(example_config_path \<mapsto> ''<derived 219>'')\<rparr>)
     ''/templates/match.yaml''
     example_micrograph ''12000.0'' ''11800.0'' ''35.2'' example_config_path [0, 1] =
     (example_world\<lparr>files := (files example_world)(example_config_path \<mapsto> ''<derived 219>'')\<rparr>,
      Inr example_derived)"
proof -
  let ?w1 = "example_world\<lparr>files := (files example_world)(example_config_path \<mapsto> ''<derived 219>'')\<rparr>"
  have h1: "create_yaml_for_micrograph example_env example_world ''/templates/match.yaml''
     example_micrograph ''12000.0'' ''11800.0'' ''35.2'' example_config_path [0, 1] =
     (?w1, Inr example_derived)"
    by (simp add: create_yaml_for_micrograph_def example_world_def example_env_def
          example_overlay bind_exn_def)
  have h2: "files ?w1 ''/templates/match.yaml'' = files example_world ''/templates/match.yaml''"
    by (simp add: example_config_path_def)
  from create_yaml_rerun_identical[OF h1 h2] have
    "create_yaml_for_micrograph example_env ?w1 ''/templates/match.yaml''
       example_micrograph ''12000.0'' ''11800.0'' ''35.2'' example_config_path [0, 1] =
       (?w1, Inr example_derived)"
    by (rule conjunct1)
  with h1 show ?thesis by (rule conjI)
qed

subsection \<open>Claims about the calibration file\<close>

lemma ctf_loop_first_long_line:
  "ctf_loop env lines =
     (case first_long_line_fields lines of
        None \<Rightarrow> Inr None
      | Some (f1, f2, f3) \<Rightarrow>
          bind_exn (float_or_raise env f1) (\<lambda>defocus_1.
          bind_exn (float_or_raise env f2) (\<lambda>defocus_2.
          bind_exn (float_or_raise env f3) (\<lambda>astigmatism_angle.
          Inr (Some (defocus_1, defocus_2, astigmatism_angle))))))"
proof (induction lines)
  case Nil
  show ?case by (simp add: first_long_line_fields_def)
next
  case (Cons line rest)
  show ?case
  proof (cases "\<not> startswith line ''#'' \<and> length (py_split line) \<ge> 5")
    case True
    then show ?thesis by (simp add: first_long_line_fields_def Let_def)
  next
    case False
    then have "first_long_line_fields (line # rest) = first_long_line_fields rest"
      by (auto simp: first_long_line_fields_def)
    with False Cons.IH show ?thesis by (auto simp: Let_def)
  qed
qed

lemma process_micrograph_no_parameters:
  assumes "extract_micrograph_number (basename f) = Some num"
    and "files w (path_join cd (''xenon_'' @ num @ ''_0.0_diagnostic.txt'')) = Some content"
    and "first_long_line_fields (file_lines content) = None"
  shows "process_micrograph env w f ty cd od gids bs =
           (print (''Could not extract defocus parameters from ''
                   @ path_join cd (''xenon_'' @ num @ ''_0.0_diagnostic.txt'')) w, Inr False)"
  using assms
  by (simp add: process_micrograph_def Let_def path_exists_def get_ctf_parameters_def
        ctf_loop_first_long_line)

text \<open>
  Claim C7, as the code has it. \<open>get_ctf_parameters\<close> skips the lines that start with
  \<open>#\<close> and also every line with fewer than five whitespace-separated fields; it returns
  the fields at positions 1, 2 and 3 of the first line that remains, converted by
  \<open>float\<close>. When no line remains it returns the triple of \<open>None\<close>s, and then the item is
  rejected without ending the run: \<open>process_micrograph\<close> prints a message and returns
  \<open>False\<close>, and the loop of \<open>main\<close> goes on with the next micrograph, the counter of
  successes unchanged.
\<close>

theorem calibration_from_first_long_line:
  fixes args :: "'r match_args_scheme"
  shows
  "ctf_loop env lines =
     (case first_long_line_fields lines of
        None \<Rightarrow> Inr None
      | Some (f1, f2, f3) \<Rightarrow>
          bind_exn (float_or_raise env f1) (\<lambda>defocus_1.
          bind_exn (float_or_raise env f2) (\<lambda>defocus_2.
          bind_exn (float_or_raise env f3) (\<lambda>astigmatism_angle.
          Inr (Some (defocus_1, defocus_2, astigmatism_angle)))))) \<and>
   (extract_micrograph_number (basename micrograph_file) = Some num \<and>
    files w (path_join (ctfs_dir args) (''xenon_'' @ num @ ''_0.0_diagnostic.txt''))
      = Some content \<and>
    first_long_line_fields (file_lines content) = None \<longrightarrow>
      match_loop env args n_files i successful w (micrograph_file # rest) =
        match_loop env args n_files (i + 1) successful
          (print (''Could not extract defocus parameters from ''
                  @ path_join (ctfs_dir args) (''xenon_'' @ num @ ''_0.0_diagnostic.txt''))
             (print (''Processing '' @ str_nat (i + 1) @ ''/'' @ str_nat n_files @ '': ''
                     @ basename micrograph_file) w))
          rest)"
proof (intro conjI impI)
  show "ctf_loop env lines =
     (case first_long_line_fields lines of
        None \<Rightarrow> Inr None
      | Some (f1, f2, f3) \<Rightarrow>
          bind_exn (float_or_raise env f1) (\<lambda>defocus_1.
          bind_exn (float_or_raise env f2) (\<lambda>defocus_2.
          bind_exn (float_or_raise env f3) (\<lambda>astigmatism_angle.
          Inr (Some (defocus_1, defocus_2, astigmatism_angle))))))"
    by (rule ctf_loop_first_long_line)
next
  let ?ctf = "path_join (ctfs_dir args) (''xenon_'' @ num @ ''_0.0_diagnostic.txt'')"
  let ?w1 = "print (''Processing '' @ str_nat (i + 1) @ ''/'' @ str_nat n_files @ '': ''
                     @ basename micrograph_file) w"
  assume a: "extract_micrograph_number (basename micrograph_file) = Some num \<and>
    files w ?ctf = Some content \<and>
    first_long_line_fields (file_lines content) = None"
  then have a1: "extract_micrograph_number (basename micrograph_file) = Some num"
    and a2: "files ?w1 ?ctf = Some content"
    and a3: "first_long_line_fields (file_lines content) = None"
    by (simp_all add: print_def)
  have "process_micrograph env ?w1 micrograph_file (template_yaml args) (ctfs_dir args)
                (output_dir args) (gpu_ids args) (batch_size args) =
           (print (''Could not extract defocus parameters from '' @ ?ctf) ?w1, Inr False)"
    by (rule process_micrograph_no_parameters[OF a1 a2 a3])
  then show "match_loop env args n_files i successful w (micrograph_file # rest) =
        match_loop env args n_files (i + 1) successful
          (print (''Could not extract defocus parameters from '' @ ?ctf) ?w1) rest"
    by (simp add: Let_def)
qed

lemmas text_eval = file_lines_def py_split_def startswith_def is_space_def is_digit_def
  float_or_raise_def bind_exn_def Let_def

lemma example_219_number:
  "extract_micrograph_number (basename ''/data/xenon_219_000_0.0_DWS.mrc'') = Some ''219_000''"
  by (simp add: extract_micrograph_number_def match_xenon2_def basename_def text_eval)

theorem calibration_from_first_long_line_witness:
  "extract_micrograph_number (basename ''/data/xenon_219_000_0.0_DWS.mrc'') = Some ''219_000'' \<and>
   files example_world_short ''/ctf/xenon_219_000_0.0_diagnostic.txt'' = Some example_ctf_short \<and>
   first_long_line_fields (file_lines example_ctf_short) = None \<and>
   match_loop example_env example_args 2 0 0 example_world_short
     [''/data/xenon_219_000_0.0_DWS.mrc'', ''/data/xenon_220_000_0.0_DWS.mrc''] =
   match_loop example_env example_args 2 1 0
     (example_world_short\<lparr>stdout :=
        [''Processing 1/2: xenon_219_000_0.0_DWS.mrc'',
         ''Could not extract defocus parameters from /ctf/xenon_219_000_0.0_diagnostic.txt'']\<rparr>)
     [''/data/xenon_220_000_0.0_DWS.mrc'']"
proof -
  let ?f = "''/data/xenon_219_000_0.0_DWS.mrc''"
  have h2: "files example_world_short
              (path_join (ctfs_dir example_args) (''xenon_'' @ ''219_000'' @ ''_0.0_diagnostic.txt''))
            = Some example_ctf_short"
    by (simp add: example_world_short_def example_args_def path_join_def)
  have h3: "first_long_line_fields (file_lines example_ctf_short) = None"
    by (simp add: first_long_line_fields_def example_ctf_short_def text_eval)
  have s: "str_nat (Suc 0) = ''1''" "str_nat 2 = ''2''"
    by (simp_all add: str_nat.simps digit_char_def)
  have "match_loop example_env example_args 2 0 0 example_world_short
          (?f # [''/data/xenon_220_000_0.0_DWS.mrc'']) =
        match_loop example_env example_args 2 (0 + 1) 0
          (print (''Could not extract defocus parameters from ''
                  @ path_join (ctfs_dir example_args)
                      (''xenon_'' @ ''219_000'' @ ''_0.0_diagnostic.txt''))
             (print (''Processing '' @ str_nat (0 + 1) @ ''/'' @ str_nat 2 @ '': ''
                     @ basename ?f) example_world_short))
          [''/data/xenon_220_000_0.0_DWS.mrc'']"
    using calibration_from_first_long_line[where env = example_env and args = example_args
        and micrograph_file = ?f and num = "''219_000''" and w = example_world_short
        and content = example_ctf_short and n_files = 2 and i = 0 and successful = 0
        and rest = "[''/data/xenon_220_000_0.0_DWS.mrc'']"]
      example_219_number h2 h3
    by blast
  then show ?thesis
    using example_219_number h2 h3
    by (simp del: match_loop.simps
          add: s print_def example_args_def path_join_def basename_def example_world_short_def
          example_world_def)
qed

text \<open>
  Claim C7 as stated fails: the fields are not those of the first non-comment line. In
  \<open>example_ctf_two_lines\<close> the first non-comment line has the four fields
  \<open>1.0 12000.0 11800.0 35.2\<close>, whose positions 1, 2 and 3 are present; the code passes
  over it and returns the fields of the next line.
\<close>

theorem calibration_not_from_first_line:
  "first_non_comment_fields (file_lines example_ctf_two_lines)
     = Some (''12000.0'', ''11800.0'', ''35.2'') \<and>
   ctf_loop example_env (file_lines example_ctf_two_lines)
     = Inr (Some (''13000.0'', ''12800.0'', ''40.0''))"
  by (simp add: text_eval first_non_comment_fields_def example_env_def example_ctf_two_lines_def)

end
